theory Spec2Isabelle
  imports Complex_Main "HOL-Library.Signed_Division"
begin

section \<open>The Great Bakra Escape: a shallow embedding of source.cpp\<close>

text \<open>
  The program is a single C++ file: an abstract class \<open>Levels\<close>, four levels (maze,
  space invaders, flappy, obstacle course) and the frame loop of \<open>main\<close> that sequences
  them. Each class becomes a record of its fields, each member function a function from
  the old object to the new one, each frame's keyboard, clock and random draws an explicit
  input.

  Numbers. C++ \<open>int\<close> is modelled by \<open>int\<close>, with the wrap-around at 32 bits written out
  where a computation can leave the range (\<open>int32\<close>). C++ \<open>float\<close> is modelled by \<open>real\<close>:
  every operation is the exact one, without rounding. The concrete inputs evaluated below
  use dyadic values of few bits only, on which binary32 arithmetic is exact as well.
  A float that does not fit \<open>int\<close> (or is infinite or NaN, after a division by \<open>0.0f\<close>)
  converts to \<open>INT_MIN\<close>, which is what the conversion instruction of the x86 builds
  delivers. Where a \<open>std::vector\<close> is accessed beyond its size or through \<open>back()\<close> when
  it is empty, the model returns an error value.
\<close>

subsection \<open>Errors\<close>

datatype error =
    EmptyVectorAccess       \<comment> \<open>\<open>back()\<close> or \<open>[0]\<close> of an empty \<open>std::vector\<close>\<close>
  | NullPointer             \<comment> \<open>a member call through a null \<open>unique_ptr\<close>\<close>
  | VectorOutOfRange        \<comment> \<open>\<open>operator[]\<close> beyond the size of a \<open>std::vector\<close>\<close>
  | StackExhausted          \<comment> \<open>a recursion deeper than the call stack allows\<close>

subsection \<open>C++ arithmetic\<close>

definition INT_MIN :: int where "INT_MIN = - 2147483648"
definition INT_MAX :: int where "INT_MAX = 2147483647"

definition int32 :: "int \<Rightarrow> int" where
  \<comment> \<open>the 32-bit two's complement value that an \<open>int\<close> computation leaves\<close>
  "int32 n = (n + 2147483648) mod 4294967296 - 2147483648"

definition float_to_int :: "real \<Rightarrow> int" where
  \<comment> \<open>\<open>(int)x\<close> and \<open>static_cast<int>(x)\<close>: truncation towards zero; \<open>INT_MIN\<close> when the
      truncated value does not fit\<close>
  "float_to_int x =
     (let t = (if 0 \<le> x then \<lfloor>x\<rfloor> else \<lceil>x\<rceil>)
      in if INT_MIN \<le> t \<and> t \<le> INT_MAX then t else INT_MIN)"

definition quotient_to_int :: "real \<Rightarrow> real \<Rightarrow> int" where
  \<comment> \<open>\<open>(int)(a / b)\<close> on floats: \<open>a / 0.0f\<close> is an infinity or NaN\<close>
  "quotient_to_int a b = (if b = 0 then INT_MIN else float_to_int (a / b))"

definition int_rem :: "int \<Rightarrow> int \<Rightarrow> int" where
  \<comment> \<open>\<open>a % b\<close> on \<open>int\<close>: the remainder of the division that truncates\<close>
  "int_rem a b = a smod b"

definition int_quot :: "int \<Rightarrow> int \<Rightarrow> int" where
  \<comment> \<open>\<open>a / b\<close> on \<open>int\<close>\<close>
  "int_quot a b = a sdiv b"

definition minmax :: "real \<Rightarrow> real \<Rightarrow> real \<Rightarrow> real" where
  "minmax v min_val max_val =
     (if v < min_val then min_val else if v > max_val then max_val else v)"

subsection \<open>raylib values\<close>

record Vector2 =
  vx :: real
  vy :: real

record Rectangle =
  rx :: real
  ry :: real
  rwidth :: real
  rheight :: real

definition Rect :: "real \<Rightarrow> real \<Rightarrow> real \<Rightarrow> real \<Rightarrow> Rectangle" where
  "Rect x y w h = \<lparr>rx = x, ry = y, rwidth = w, rheight = h\<rparr>"

definition Vec :: "real \<Rightarrow> real \<Rightarrow> Vector2" where
  "Vec x y = \<lparr>vx = x, vy = y\<rparr>"

text \<open>
  Modelled from the spec: the two collision predicates of the display/input backend
  (raylib's \<open>CheckCollisionRecs\<close> and \<open>CheckCollisionCircleRec\<close>), which are not part
  of this repository. Rectangles overlap when their open interiors do; a circle overlaps
  a rectangle when its centre is within the radius of the rectangle, corners rounded.
\<close>

definition CheckCollisionRecs :: "Rectangle \<Rightarrow> Rectangle \<Rightarrow> bool" where
  "CheckCollisionRecs a b \<longleftrightarrow>
     rx a < rx b + rwidth b \<and> rx a + rwidth a > rx b \<and>
     ry a < ry b + rheight b \<and> ry a + rheight a > ry b"

definition CheckCollisionCircleRec :: "Vector2 \<Rightarrow> real \<Rightarrow> Rectangle \<Rightarrow> bool" where
  "CheckCollisionCircleRec center radius rec =
     (let recCenterX = rx rec + rwidth rec / 2;
          recCenterY = ry rec + rheight rec / 2;
          dx = \<bar>vx center - recCenterX\<bar>;
          dy = \<bar>vy center - recCenterY\<bar>
      in if dx > rwidth rec / 2 + radius then False
         else if dy > rheight rec / 2 + radius then False
         else if dx \<le> rwidth rec / 2 then True
         else if dy \<le> rheight rec / 2 then True
         else (dx - rwidth rec / 2)\<^sup>2 + (dy - rheight rec / 2)\<^sup>2 \<le> radius\<^sup>2)"

subsection \<open>Frame input\<close>

record frame =
  deltaTime :: real        \<comment> \<open>\<open>GetFrameTime()\<close>\<close>
  currentTime :: real      \<comment> \<open>\<open>GetTime()\<close>\<close>
  keyLeft :: bool          \<comment> \<open>\<open>IsKeyDown(KEY_LEFT)\<close>\<close>
  keyRight :: bool
  keyUp :: bool
  keyDown :: bool
  keySpaceDown :: bool     \<comment> \<open>\<open>IsKeyDown(KEY_SPACE)\<close>\<close>
  keySpacePressed :: bool  \<comment> \<open>\<open>IsKeyPressed(KEY_SPACE)\<close>\<close>
  keyEnterPressed :: bool  \<comment> \<open>\<open>IsKeyPressed(KEY_ENTER)\<close>\<close>
  mousePressed :: bool     \<comment> \<open>\<open>IsMouseButtonPressed(MOUSE_LEFT_BUTTON)\<close>\<close>
  mousePos :: Vector2      \<comment> \<open>\<open>GetMousePosition()\<close>\<close>

definition GLOBAL_SCREEN_WIDTH :: int where "GLOBAL_SCREEN_WIDTH = 1280"
definition GLOBAL_SCREEN_HEIGHT :: int where "GLOBAL_SCREEN_HEIGHT = 720"

section \<open>Random engines\<close>

text \<open>
  Every level draws from a \<open>std::mt19937\<close>. The model takes the sequence of the outputs
  of an engine as a parameter \<open>rnd\<close> and keeps in the level how many of them are used up.
  \<open>std::shuffle\<close> leaves some permutation of its range that the engine chooses:
  \<open>shuffle_with k\<close> is the permutation number \<open>k\<close> (every permutation of the range is
  \<open>shuffle_with k\<close> for some \<open>k\<close>). The uniform real distributions (\<open>s_maze_dis\<close>,
  \<open>s_si_dist\<close>) map an output to \<open>[0, 1)\<close>.
\<close>

definition insert_at :: "nat \<Rightarrow> 'a \<Rightarrow> 'a list \<Rightarrow> 'a list" where
  "insert_at i x ys = take i ys @ x # drop i ys"

fun shuffle_with :: "int \<Rightarrow> 'a list \<Rightarrow> 'a list" where
  "shuffle_with k [] = []"
| "shuffle_with k (x # xs) =
     insert_at (nat (k mod (int (length xs) + 1))) x (shuffle_with (k div (int (length xs) + 1)) xs)"

definition uniform_real_01 :: "int \<Rightarrow> real" where
  "uniform_real_01 k = real_of_int (k mod 4294967296) / 4294967296"

section \<open>Maze level\<close>

definition MAZE_BASE_WIDTH_CELLS :: int where "MAZE_BASE_WIDTH_CELLS = 35"
definition MAZE_BASE_HEIGHT_CELLS :: int where "MAZE_BASE_HEIGHT_CELLS = 21"
definition COIN_SPAWN_CHANCE :: real where "COIN_SPAWN_CHANCE = 3 / 10"

record MazeLevel =
  m_screenWidth :: int
  m_screenHeight :: int
  mazeGrid :: "bool list list"     \<comment> \<open>\<open>True\<close> is a wall; \<open>mazeGrid ! r ! c\<close>\<close>
  mazeWidthCells :: int
  mazeHeightCells :: int
  cellSizePixels :: real
  startCol :: int
  startRow :: int
  endCol :: int
  endRow :: int
  playerX :: real
  playerY :: real
  playerSize :: real
  playerSpeed :: real
  coins :: "Vector2 list"
  totalInitialCoins :: int
  collectedCoins :: int
  coinSize :: real
  levelWon :: bool
  mazeGeneratedForPreview :: bool
  maze_gen :: int                  \<comment> \<open>how many draws \<open>s_maze_gen\<close> has served\<close>

definition make_odd_positive :: "int \<Rightarrow> int" where
  \<comment> \<open>\<open>if (n % 2 == 0) n--; if (n <= 0) n = 1;\<close>\<close>
  "make_odd_positive n =
     (let n1 = (if int_rem n 2 = 0 then int32 (n - 1) else n)
      in if n1 \<le> 0 then 1 else n1)"

definition at_least_3 :: "int \<Rightarrow> int" where
  \<comment> \<open>\<open>if (n < 3) n = 3;\<close>\<close>
  "at_least_3 n = (if n < 3 then 3 else n)"

definition CalculateMazeDimensions :: "MazeLevel \<Rightarrow> MazeLevel" where
  "CalculateMazeDimensions m =
     (let w0 = MAZE_BASE_WIDTH_CELLS;
          w1 = (if int_rem w0 2 = 0 then w0 + 1 else w0);
          h0 = MAZE_BASE_HEIGHT_CELLS;
          h1 = (if int_rem h0 2 = 0 then h0 + 1 else h0);
          cellWidthByScreen = real_of_int (m_screenWidth m) / real_of_int w1;
          cellHeightByScreen = real_of_int (m_screenHeight m) / real_of_int h1;
          cell = real_of_int \<lfloor>min cellWidthByScreen cellHeightByScreen\<rfloor>;
          w4 = make_odd_positive (quotient_to_int (real_of_int (m_screenWidth m)) cell);
          h4 = make_odd_positive (quotient_to_int (real_of_int (m_screenHeight m)) cell);
          w5 = at_least_3 w4;
          h5 = at_least_3 h4
      in m\<lparr>mazeWidthCells := w5, mazeHeightCells := h5, cellSizePixels := cell,
           startCol := 1, startRow := 1, endCol := w5 - 2, endRow := h5 - 2,
           playerSize := cell * (6 / 10), coinSize := cell * (3 / 10)\<rparr>)"

subsection \<open>Grid\<close>

definition grid_in_range :: "bool list list \<Rightarrow> int \<Rightarrow> int \<Rightarrow> bool" where
  "grid_in_range g r c \<longleftrightarrow>
     0 \<le> r \<and> nat r < length g \<and> 0 \<le> c \<and> nat c < length (g ! nat r)"

definition grid_get :: "bool list list \<Rightarrow> int \<Rightarrow> int \<Rightarrow> error + bool" where
  \<comment> \<open>\<open>mazeGrid[r][c]\<close> read\<close>
  "grid_get g r c =
     (if grid_in_range g r c then Inr (g ! nat r ! nat c) else Inl VectorOutOfRange)"

definition grid_set :: "bool list list \<Rightarrow> int \<Rightarrow> int \<Rightarrow> bool \<Rightarrow> error + bool list list" where
  \<comment> \<open>\<open>mazeGrid[r][c] = v\<close>\<close>
  "grid_set g r c v =
     (if grid_in_range g r c then Inr (g[nat r := (g ! nat r)[nat c := v]])
      else Inl VectorOutOfRange)"

definition InitMazeGrid :: "MazeLevel \<Rightarrow> MazeLevel" where
  "InitMazeGrid m =
     m\<lparr>mazeGrid := replicate (nat (mazeHeightCells m)) (replicate (nat (mazeWidthCells m)) True)\<rparr>"

subsection \<open>Carving\<close>

definition dr :: "int list" where "dr = [-2, 0, 2, 0]"
definition dc :: "int list" where "dc = [0, 2, 0, -2]"

text \<open>
  \<open>RecursiveGenerateMaze\<close> calls itself inside its loop over the shuffled directions. The
  first argument after the engine bounds the depth of the C++ call stack: a call that
  would go deeper fails with \<open>StackExhausted\<close>. \<open>carve_directions\<close> is the \<open>for\<close> loop
  over the directions that are left.
\<close>

fun RecursiveGenerateMaze :: "(int \<Rightarrow> int) \<Rightarrow> nat \<Rightarrow> MazeLevel \<Rightarrow> int \<Rightarrow> int \<Rightarrow> error + MazeLevel"
and carve_directions :: "(int \<Rightarrow> int) \<Rightarrow> nat \<Rightarrow> nat list \<Rightarrow> MazeLevel \<Rightarrow> int \<Rightarrow> int \<Rightarrow> error + MazeLevel"
where
  "RecursiveGenerateMaze rnd 0 m r c = Inl StackExhausted"
| "RecursiveGenerateMaze rnd (Suc depth) m r c =
     (case grid_set (mazeGrid m) r c False of
        Inl e \<Rightarrow> Inl e
      | Inr g \<Rightarrow>
          carve_directions rnd depth (shuffle_with (rnd (maze_gen m)) [0, 1, 2, 3])
            (m\<lparr>mazeGrid := g, maze_gen := maze_gen m + 1\<rparr>) r c)"
| "carve_directions rnd depth [] m r c = Inr m"
| "carve_directions rnd depth (dir # dirs) m r c =
     (let nextR = r + dr ! dir;
          nextC = c + dc ! dir;
          wallR = r + int_quot (dr ! dir) 2;
          wallC = c + int_quot (dc ! dir) 2
      in if nextR \<ge> 0 \<and> nextR < mazeHeightCells m \<and> nextC \<ge> 0 \<and> nextC < mazeWidthCells m
         then (case grid_get (mazeGrid m) nextR nextC of
                 Inl e \<Rightarrow> Inl e
               | Inr isWall \<Rightarrow>
                   if isWall
                   then (case grid_set (mazeGrid m) wallR wallC False of
                           Inl e \<Rightarrow> Inl e
                         | Inr g \<Rightarrow>
                             (case RecursiveGenerateMaze rnd depth (m\<lparr>mazeGrid := g\<rparr>) nextR nextC of
                                Inl e \<Rightarrow> Inl e
                              | Inr m' \<Rightarrow> carve_directions rnd depth dirs m' r c))
                   else carve_directions rnd depth dirs m r c)
         else carve_directions rnd depth dirs m r c)"

definition GenerateNewMazeStructure :: "(int \<Rightarrow> int) \<Rightarrow> nat \<Rightarrow> MazeLevel \<Rightarrow> error + MazeLevel" where
  "GenerateNewMazeStructure rnd depth m =
     (let m1 = CalculateMazeDimensions m
      in case RecursiveGenerateMaze rnd depth (InitMazeGrid m1) (startRow m1) (startCol m1) of
           Inl e \<Rightarrow> Inl e
         | Inr m2 \<Rightarrow> Inr (m2\<lparr>mazeGeneratedForPreview := True\<rparr>))"

definition MazeLevel_new :: "int \<Rightarrow> int \<Rightarrow> MazeLevel" where
  \<comment> \<open>the constructor \<open>MazeLevel(screenW, screenH)\<close>\<close>
  "MazeLevel_new screenW screenH =
     InitMazeGrid
       (CalculateMazeDimensions
             \<lparr>m_screenWidth = screenW, m_screenHeight = screenH, mazeGrid = [],
              mazeWidthCells = 0, mazeHeightCells = 0, cellSizePixels = 0,
              startCol = 0, startRow = 0, endCol = 0, endRow = 0,
              playerX = 0, playerY = 0, playerSize = 0, playerSpeed = 3,
              coins = [], totalInitialCoins = 0, collectedCoins = 0, coinSize = 0,
              levelWon = False, mazeGeneratedForPreview = False, maze_gen = 0\<rparr>)"

subsection \<open>Loading and unloading\<close>

definition cell_draws :: "MazeLevel \<Rightarrow> (int \<times> int) list" where
  \<comment> \<open>the cells in the order of the two nested \<open>for\<close> loops, rows outside\<close>
  "cell_draws m =
     concat (map (\<lambda>r. map (\<lambda>c. (r, c)) [0 .. mazeWidthCells m - 1]) [0 .. mazeHeightCells m - 1])"

fun sprinkle_coins :: "(int \<Rightarrow> int) \<Rightarrow> (int \<times> int) list \<Rightarrow> MazeLevel \<Rightarrow> error + MazeLevel" where
  "sprinkle_coins rnd [] m = Inr m"
| "sprinkle_coins rnd ((r, c) # cells) m =
     (case grid_get (mazeGrid m) r c of
        Inl e \<Rightarrow> Inl e
      | Inr isWall \<Rightarrow>
          if \<not> isWall \<and> \<not> (r = startRow m \<and> c = startCol m) \<and> \<not> (r = endRow m \<and> c = endCol m)
          then (if uniform_real_01 (rnd (maze_gen m)) < COIN_SPAWN_CHANCE
                then sprinkle_coins rnd cells
                       (m\<lparr>coins := coins m @
                                    [Vec (real_of_int c * cellSizePixels m + cellSizePixels m / 2)
                                         (real_of_int r * cellSizePixels m + cellSizePixels m / 2)],
                          totalInitialCoins := totalInitialCoins m + 1,
                          maze_gen := maze_gen m + 1\<rparr>)
                else sprinkle_coins rnd cells (m\<lparr>maze_gen := maze_gen m + 1\<rparr>))
          else sprinkle_coins rnd cells m)"

definition ResetPlayerAndCoins :: "(int \<Rightarrow> int) \<Rightarrow> MazeLevel \<Rightarrow> error + MazeLevel" where
  "ResetPlayerAndCoins rnd m =
     sprinkle_coins rnd (cell_draws m)
       (m\<lparr>playerX := real_of_int (startCol m) * cellSizePixels m + (cellSizePixels m - playerSize m) / 2,
          playerY := real_of_int (startRow m) * cellSizePixels m + (cellSizePixels m - playerSize m) / 2,
          levelWon := False, coins := [], collectedCoins := 0, totalInitialCoins := 0\<rparr>)"

definition MazeLevel_Load :: "(int \<Rightarrow> int) \<Rightarrow> nat \<Rightarrow> MazeLevel \<Rightarrow> error + MazeLevel" where
  "MazeLevel_Load rnd depth m =
     (let m1 = CalculateMazeDimensions m
      in case (if \<not> mazeGeneratedForPreview m1 then GenerateNewMazeStructure rnd depth m1
               else Inr m1) of
           Inl e \<Rightarrow> Inl e
         | Inr m2 \<Rightarrow> ResetPlayerAndCoins rnd m2)"

definition MazeLevel_Unload :: "MazeLevel \<Rightarrow> MazeLevel" where
  "MazeLevel_Unload m = m\<lparr>mazeGrid := [], coins := [], mazeGeneratedForPreview := False\<rparr>"

subsection \<open>One frame of the maze\<close>

fun wall_hit :: "MazeLevel \<Rightarrow> Rectangle \<Rightarrow> (int \<times> int) list \<Rightarrow> error + bool" where
  "wall_hit m playerRect [] = Inr False"
| "wall_hit m playerRect ((r, c) # cells) =
     (if r < 0 \<or> r \<ge> mazeHeightCells m \<or> c < 0 \<or> c \<ge> mazeWidthCells m
      then wall_hit m playerRect cells
      else (case grid_get (mazeGrid m) r c of
              Inl e \<Rightarrow> Inl e
            | Inr isWall \<Rightarrow>
                if isWall \<and>
                   CheckCollisionRecs playerRect
                     (Rect (real_of_int c * cellSizePixels m) (real_of_int r * cellSizePixels m)
                        (cellSizePixels m) (cellSizePixels m))
                then Inr True
                else wall_hit m playerRect cells))"

definition CheckWallCollision :: "MazeLevel \<Rightarrow> real \<Rightarrow> real \<Rightarrow> real \<Rightarrow> real \<Rightarrow> real \<Rightarrow> error + bool" where
  "CheckWallCollision m px py pSize dx dy =
     (let playerRect = Rect (px + dx) (py + dy) pSize pSize;
          minCol0 = quotient_to_int (rx playerRect) (cellSizePixels m);
          maxCol0 = quotient_to_int (rx playerRect + rwidth playerRect - 1) (cellSizePixels m);
          minRow0 = quotient_to_int (ry playerRect) (cellSizePixels m);
          maxRow0 = quotient_to_int (ry playerRect + rheight playerRect - 1) (cellSizePixels m);
          minCol = float_to_int (minmax (real_of_int minCol0) 0 (real_of_int (mazeWidthCells m - 1)));
          maxCol = float_to_int (minmax (real_of_int maxCol0) 0 (real_of_int (mazeWidthCells m - 1)));
          minRow = float_to_int (minmax (real_of_int minRow0) 0 (real_of_int (mazeHeightCells m - 1)));
          maxRow = float_to_int (minmax (real_of_int maxRow0) 0 (real_of_int (mazeHeightCells m - 1)))
      in wall_hit m playerRect
           (concat (map (\<lambda>r. map (\<lambda>c. (r, c)) [minCol .. maxCol]) [minRow .. maxRow])))"

definition coinRect :: "MazeLevel \<Rightarrow> Vector2 \<Rightarrow> Rectangle" where
  "coinRect m coin = Rect (vx coin - coinSize m / 2) (vy coin - coinSize m / 2) (coinSize m) (coinSize m)"

fun collect_coins :: "MazeLevel \<Rightarrow> Rectangle \<Rightarrow> Vector2 list \<Rightarrow> Vector2 list \<times> int" where
  \<comment> \<open>the loop that erases the coins the player touches; the result is what stays and
      how many went\<close>
  "collect_coins m playerRect [] = ([], 0)"
| "collect_coins m playerRect (coin # rest) =
     (let (kept, n) = collect_coins m playerRect rest
      in if CheckCollisionRecs playerRect (coinRect m coin) then (kept, n + 1)
         else (coin # kept, n))"

definition maze_playerRect :: "MazeLevel \<Rightarrow> Rectangle" where
  "maze_playerRect m = Rect (playerX m) (playerY m) (playerSize m) (playerSize m)"

definition maze_exitRect :: "MazeLevel \<Rightarrow> Rectangle" where
  "maze_exitRect m =
     Rect (real_of_int (endCol m) * cellSizePixels m) (real_of_int (endRow m) * cellSizePixels m)
       (cellSizePixels m) (cellSizePixels m)"

definition try_move :: "MazeLevel \<Rightarrow> real \<Rightarrow> real \<Rightarrow> error + MazeLevel" where
  \<comment> \<open>one wall test for each axis, then the clamp to the screen\<close>
  "try_move m dx dy =
     (case CheckWallCollision m (playerX m) (playerY m) (playerSize m) dx 0 of
        Inl e \<Rightarrow> Inl e
      | Inr hitX \<Rightarrow>
          let m1 = (if \<not> hitX then m\<lparr>playerX := playerX m + dx\<rparr> else m)
          in (case CheckWallCollision m1 (playerX m1) (playerY m1) (playerSize m1) 0 dy of
                Inl e \<Rightarrow> Inl e
              | Inr hitY \<Rightarrow>
                  let m2 = (if \<not> hitY then m1\<lparr>playerY := playerY m1 + dy\<rparr> else m1)
                  in Inr (m2\<lparr>playerX := minmax (playerX m2) 0
                                            (real_of_int (m_screenWidth m2) - playerSize m2),
                            playerY := minmax (playerY m2) 0
                                            (real_of_int (m_screenHeight m2) - playerSize m2)\<rparr>)))"

definition move_player :: "frame \<Rightarrow> MazeLevel \<Rightarrow> error + MazeLevel" where
  \<comment> \<open>the first half of \<open>Update\<close>: the arrow keys give the step that is tried\<close>
  "move_player f m =
     (let dx0 = 0;
          dx1 = (if keyRight f then dx0 + playerSpeed m else dx0);
          dx = (if keyLeft f then dx1 - playerSpeed m else dx1);
          dy0 = 0;
          dy1 = (if keyUp f then dy0 - playerSpeed m else dy0);
          dy = (if keyDown f then dy1 + playerSpeed m else dy1)
      in try_move m dx dy)"

definition collect_and_check :: "MazeLevel \<Rightarrow> MazeLevel" where
  \<comment> \<open>the second half of \<open>Update\<close>: the coins the player touches, then the exit\<close>
  "collect_and_check m =
     (let (kept, n) = collect_coins m (maze_playerRect m) (coins m);
          m4 = m\<lparr>coins := kept, collectedCoins := collectedCoins m + n\<rparr>
      in if CheckCollisionRecs (maze_playerRect m4) (maze_exitRect m4) \<and>
            collectedCoins m4 = totalInitialCoins m4
         then m4\<lparr>levelWon := True\<rparr>
         else m4)"

definition MazeLevel_Update :: "frame \<Rightarrow> MazeLevel \<Rightarrow> error + MazeLevel" where
  "MazeLevel_Update f m =
     (if levelWon m then Inr m
      else case move_player f m of
             Inl e \<Rightarrow> Inl e
           | Inr m3 \<Rightarrow> Inr (collect_and_check m3))"

definition MazeLevel_IsComplete :: "MazeLevel \<Rightarrow> bool" where
  "MazeLevel_IsComplete m = levelWon m"

subsection \<open>A play-through of the maze\<close>



definition on_exit :: "MazeLevel \<Rightarrow> bool" where
  \<comment> \<open>the player's box overlaps the exit cell\<close>
  "on_exit m = CheckCollisionRecs (maze_playerRect m) (maze_exitRect m)"

section \<open>Space invaders level\<close>

definition SI_PLAYER_SPEED :: int where "SI_PLAYER_SPEED = 5"
definition SI_BULLET_SPEED :: int where "SI_BULLET_SPEED = 3"
definition SI_INVADER_SPEED :: int where "SI_INVADER_SPEED = 1"
definition SI_INVADER_ROWS :: int where "SI_INVADER_ROWS = 2"
definition SI_INVADER_COLS :: int where "SI_INVADER_COLS = 8"
definition SI_INVADER_SPACING_X :: int where "SI_INVADER_SPACING_X = 50"
definition SI_INVADER_SPACING_Y :: int where "SI_INVADER_SPACING_Y = 40"
definition SI_INVADER_START_X :: int where "SI_INVADER_START_X = 50"
definition SI_INVADER_START_Y :: int where "SI_INVADER_START_Y = 100"
definition SI_INVADER_FIRE_RATE :: real where "SI_INVADER_FIRE_RATE = 15 / 100"
definition SI_INVADER_MOVE_INTERVAL :: real where "SI_INVADER_MOVE_INTERVAL = 8 / 10"
definition SI_INVADER_DESCENT_AMOUNT :: real where "SI_INVADER_DESCENT_AMOUNT = 20"

record Bullet =
  b_rect :: Rectangle
  b_active :: bool
  isPlayerBullet :: bool

record SIPlayer =
  p_rect :: Rectangle
  lives :: int
  lastShotTime :: real

record Invader =
  i_rect :: Rectangle
  i_active :: bool
  i_type :: int

record SpaceInvadersLevel =
  si_screenWidth :: int
  si_screenHeight :: int
  player :: SIPlayer
  invaders :: "Invader list"
  playerBullets :: "Bullet list"
  invaderBullets :: "Bullet list"
  score :: int
  gameOver :: bool
  gameWon :: bool
  invaderMoveDirection :: real
  invaderMoveTimer :: real
  currentScreenW :: real
  currentScreenH :: real
  si_rng :: int                  \<comment> \<open>how many draws \<open>s_si_rng\<close> has served\<close>

definition Bullet_new :: "Vector2 \<Rightarrow> bool \<Rightarrow> Bullet" where
  "Bullet_new pos playerBullet =
     \<lparr>b_rect = Rect (vx pos) (vy pos) 5 10, b_active = True, isPlayerBullet = playerBullet\<rparr>"

definition Bullet_Update :: "real \<Rightarrow> Bullet \<Rightarrow> Bullet" where
  "Bullet_Update screenHeight b =
     (if b_active b
      then let r = b_rect b;
               r' = (if isPlayerBullet b then r\<lparr>ry := ry r - real_of_int SI_BULLET_SPEED\<rparr>
                     else r\<lparr>ry := ry r + real_of_int SI_BULLET_SPEED\<rparr>)
           in if ry r' < 0 \<or> ry r' > screenHeight then b\<lparr>b_rect := r', b_active := False\<rparr>
              else b\<lparr>b_rect := r'\<rparr>
      else b)"

definition SIPlayer_new :: "int \<Rightarrow> int \<Rightarrow> SIPlayer" where
  "SIPlayer_new screenW screenH =
     \<lparr>p_rect = Rect (real_of_int screenW / 2 - 25) (real_of_int screenH - 70) 50 50,
      lives = 5, lastShotTime = 0\<rparr>"

definition SIPlayer_Update :: "frame \<Rightarrow> real \<Rightarrow> SIPlayer \<times> Bullet list \<Rightarrow> SIPlayer \<times> Bullet list" where
  "SIPlayer_Update f screenW pb =
     (let p = fst pb; bullets = snd pb;
          p1 = (if keyLeft f \<and> rx (p_rect p) > 0
                then p\<lparr>p_rect := (p_rect p)\<lparr>rx := rx (p_rect p) - real_of_int SI_PLAYER_SPEED\<rparr>\<rparr>
                else p);
          p2 = (if keyRight f \<and> rx (p_rect p1) < screenW - rwidth (p_rect p1)
                then p1\<lparr>p_rect := (p_rect p1)\<lparr>rx := rx (p_rect p1) + real_of_int SI_PLAYER_SPEED\<rparr>\<rparr>
                else p1)
      in if keySpaceDown f \<and> currentTime f - lastShotTime p2 \<ge> 1 / 2
         then (p2\<lparr>lastShotTime := currentTime f\<rparr>,
               bullets @ [Bullet_new (Vec (rx (p_rect p2) + rwidth (p_rect p2) / 2 - 5 / 2)
                                          (ry (p_rect p2))) True])
         else (p2, bullets))"

definition Invader_new :: "Vector2 \<Rightarrow> int \<Rightarrow> Invader" where
  "Invader_new pos invaderType =
     \<lparr>i_rect = Rect (vx pos) (vy pos) 30 30, i_active = True, i_type = invaderType\<rparr>"

definition FireBullet :: "Invader \<Rightarrow> Bullet list \<Rightarrow> Bullet list" where
  "FireBullet iv bullets =
     (if i_active iv
      then bullets @ [Bullet_new (Vec (rx (i_rect iv) + rwidth (i_rect iv) / 2 - 5 / 2)
                                      (ry (i_rect iv) + rheight (i_rect iv))) False]
      else bullets)"

definition SpaceInvadersLevel_new :: "int \<Rightarrow> int \<Rightarrow> SpaceInvadersLevel" where
  "SpaceInvadersLevel_new screenW screenH =
     \<lparr>si_screenWidth = screenW, si_screenHeight = screenH,
      player = SIPlayer_new screenW screenH,
      invaders = [], playerBullets = [], invaderBullets = [],
      score = 0, gameOver = False, gameWon = False,
      invaderMoveDirection = 1, invaderMoveTimer = 0,
      currentScreenW = real_of_int screenW, currentScreenH = real_of_int screenH,
      si_rng = 0\<rparr>"

definition spawn_invaders :: "Invader list" where
  \<comment> \<open>the two nested \<open>for\<close> loops of \<open>Load\<close>, rows outside\<close>
  "spawn_invaders =
     concat (map (\<lambda>row. map (\<lambda>col.
        Invader_new (Vec (real_of_int SI_INVADER_START_X + real_of_int (col * SI_INVADER_SPACING_X))
                         (real_of_int SI_INVADER_START_Y + real_of_int (row * SI_INVADER_SPACING_Y)))
                    row)
        [0 .. SI_INVADER_COLS - 1]) [0 .. SI_INVADER_ROWS - 1])"

definition SpaceInvadersLevel_Load :: "SpaceInvadersLevel \<Rightarrow> SpaceInvadersLevel" where
  "SpaceInvadersLevel_Load s =
     s\<lparr>player := SIPlayer_new (si_screenWidth s) (si_screenHeight s),
       score := 0, gameOver := False, gameWon := False,
       invaderMoveDirection := 1, invaderMoveTimer := 0,
       playerBullets := [], invaderBullets := [], invaders := spawn_invaders\<rparr>"

definition SpaceInvadersLevel_Unload :: "SpaceInvadersLevel \<Rightarrow> SpaceInvadersLevel" where
  "SpaceInvadersLevel_Unload s = s\<lparr>playerBullets := [], invaderBullets := [], invaders := []\<rparr>"

subsection \<open>The loops of one frame\<close>

fun formation_extent :: "Invader list \<Rightarrow> real \<times> real \<times> bool \<Rightarrow> real \<times> real \<times> bool" where
  \<comment> \<open>\<open>minX\<close>, \<open>maxX\<close> and \<open>anyInvaderActive\<close> over the active invaders\<close>
  "formation_extent [] acc = acc"
| "formation_extent (iv # rest) (minX, maxX, anyActive) =
     (if i_active iv
      then formation_extent rest
             (min minX (rx (i_rect iv)), max maxX (rx (i_rect iv) + rwidth (i_rect iv)), True)
      else formation_extent rest (minX, maxX, anyActive))"

fun move_invaders :: "real \<Rightarrow> bool \<Rightarrow> real \<Rightarrow> Invader list \<Rightarrow> bool \<Rightarrow> Invader list \<times> bool" where
  \<comment> \<open>shift every active invader, drop it when the formation turns, and raise
      \<open>gameOver\<close> (the last argument) when one gets down to the player's row\<close>
  "move_invaders direction shouldDescend playerTop [] over = ([], over)"
| "move_invaders direction shouldDescend playerTop (iv # rest) over =
     (if i_active iv
      then let r1 = (i_rect iv)\<lparr>rx := rx (i_rect iv) + direction * real_of_int SI_INVADER_SPEED * 10\<rparr>;
               r2 = (if shouldDescend then r1\<lparr>ry := ry r1 + SI_INVADER_DESCENT_AMOUNT\<rparr> else r1);
               over' = (if shouldDescend \<and> ry r2 + rheight r2 \<ge> playerTop then True else over);
               (rest', over'') = move_invaders direction shouldDescend playerTop rest over'
           in (iv\<lparr>i_rect := r2\<rparr> # rest', over'')
      else let (rest', over'') = move_invaders direction shouldDescend playerTop rest over
           in (iv # rest', over''))"

fun invaders_fire :: "(int \<Rightarrow> int) \<Rightarrow> real \<Rightarrow> Invader list \<Rightarrow> Bullet list \<times> int \<Rightarrow> Bullet list \<times> int" where
  \<comment> \<open>one draw of \<open>s_si_dist\<close> for each active invader\<close>
  "invaders_fire rnd frameTime [] acc = acc"
| "invaders_fire rnd frameTime (iv # rest) (bullets, g) =
     (if i_active iv
      then (if uniform_real_01 (rnd g) < SI_INVADER_FIRE_RATE * frameTime
            then invaders_fire rnd frameTime rest (FireBullet iv bullets, g + 1)
            else invaders_fire rnd frameTime rest (bullets, g + 1))
      else invaders_fire rnd frameTime rest (bullets, g))"

fun hit_invader :: "Bullet \<Rightarrow> Invader list \<Rightarrow> (Invader list \<times> bool)" where
  \<comment> \<open>the inner loop: the first active invader the bullet overlaps is destroyed\<close>
  "hit_invader b [] = ([], False)"
| "hit_invader b (iv # rest) =
     (if i_active iv \<and> CheckCollisionRecs (b_rect b) (i_rect iv)
      then (iv\<lparr>i_active := False\<rparr> # rest, True)
      else let (rest', hit) = hit_invader b rest in (iv # rest', hit))"

fun player_bullets_hit :: "Bullet list \<Rightarrow> Invader list \<Rightarrow> int \<Rightarrow> Bullet list \<times> Invader list \<times> int" where
  "player_bullets_hit [] invs sc = ([], invs, sc)"
| "player_bullets_hit (b # bs) invs sc =
     (if b_active b
      then let (invs', hit) = hit_invader b invs;
               (bs', invs'', sc') = player_bullets_hit bs invs' (if hit then sc + 100 else sc)
           in ((if hit then b\<lparr>b_active := False\<rparr> else b) # bs', invs'', sc')
      else let (bs', invs'', sc') = player_bullets_hit bs invs sc
           in (b # bs', invs'', sc'))"

fun invader_bullets_hit :: "Bullet list \<Rightarrow> SIPlayer \<Rightarrow> bool \<Rightarrow> Bullet list \<times> SIPlayer \<times> bool" where
  \<comment> \<open>the first active bullet that overlaps the player takes a life and ends the loop\<close>
  "invader_bullets_hit [] p over = ([], p, over)"
| "invader_bullets_hit (b # bs) p over =
     (if b_active b \<and> CheckCollisionRecs (b_rect b) (p_rect p)
      then let p' = p\<lparr>lives := lives p - 1\<rparr>
           in (b\<lparr>b_active := False\<rparr> # bs, p', (if \<not> lives p' > 0 then True else over))
      else let (bs', p', over') = invader_bullets_hit bs p over in (b # bs', p', over'))"

definition allInvadersDestroyed :: "Invader list \<Rightarrow> bool" where
  "allInvadersDestroyed invs = (\<forall>iv \<in> set invs. \<not> i_active iv)"

definition SpaceInvadersLevel_Update :: "(int \<Rightarrow> int) \<Rightarrow> frame \<Rightarrow> SpaceInvadersLevel \<Rightarrow> SpaceInvadersLevel" where
  "SpaceInvadersLevel_Update rnd f s =
     (if gameOver s \<or> gameWon s then s
      else
        let (p1, pb1) = SIPlayer_Update f (currentScreenW s) (player s, playerBullets s);
            pb2 = filter b_active (map (Bullet_Update (currentScreenH s)) pb1);
            ib2 = filter b_active (map (Bullet_Update (currentScreenH s)) (invaderBullets s));
            timer1 = invaderMoveTimer s + deltaTime f;
            step = (timer1 \<ge> SI_INVADER_MOVE_INTERVAL);
            timer2 = (if step then 0 else timer1);
            (minX, maxX, anyInvaderActive) =
               (if step then formation_extent (invaders s) (currentScreenW s, 0, False)
                else (currentScreenW s, 0, False));
            turn = (step \<and> anyInvaderActive \<and>
                    (if invaderMoveDirection s = 1 then maxX \<ge> currentScreenW s - 20
                     else minX \<le> 20));
            direction = (if turn then (if invaderMoveDirection s = 1 then - 1 else 1)
                         else invaderMoveDirection s);
            (invs1, over1) =
               (if step \<and> anyInvaderActive
                then move_invaders direction turn (ry (p_rect p1)) (invaders s) (gameOver s)
                else (invaders s, gameOver s));
            (ib3, g1) = invaders_fire rnd (deltaTime f) invs1 (ib2, si_rng s);
            (pb3, invs2, score1) = player_bullets_hit pb2 invs1 (score s);
            (ib4, p2, over2) = invader_bullets_hit ib3 p1 over1
        in s\<lparr>player := p2, invaders := invs2, playerBullets := pb3, invaderBullets := ib4,
             score := score1, gameOver := over2,
             gameWon := (if allInvadersDestroyed invs2 then True else gameWon s),
             invaderMoveDirection := direction, invaderMoveTimer := timer2, si_rng := g1\<rparr>)"

definition SpaceInvadersLevel_IsComplete :: "SpaceInvadersLevel \<Rightarrow> bool" where
  "SpaceInvadersLevel_IsComplete s = (gameOver s \<or> gameWon s)"

definition SI_DidPlayerWinThisLevel :: "SpaceInvadersLevel \<Rightarrow> bool" where
  "SI_DidPlayerWinThisLevel s = gameWon s"

fun si_frames :: "(int \<Rightarrow> int) \<Rightarrow> SpaceInvadersLevel \<Rightarrow> frame list \<Rightarrow> SpaceInvadersLevel" where
  \<comment> \<open>\<open>Update\<close> once per frame, in order\<close>
  "si_frames rnd s [] = s"
| "si_frames rnd s (f # fs) = si_frames rnd (SpaceInvadersLevel_Update rnd f s) fs"

section \<open>Flappy level\<close>

definition FLAPPY_PIPE_WIDTH :: int where "FLAPPY_PIPE_WIDTH = 80"
definition FLAPPY_PIPE_GAP :: int where "FLAPPY_PIPE_GAP = 150"
definition FLAPPY_PIPE_SPEED :: real where "FLAPPY_PIPE_SPEED = 100"
definition FLAPPY_BIRD_RADIUS :: real where "FLAPPY_BIRD_RADIUS = 20"
definition FLAPPY_BIRD_JUMP_STRENGTH :: real where "FLAPPY_BIRD_JUMP_STRENGTH = - 250"
definition FLAPPY_GRAVITY :: real where "FLAPPY_GRAVITY = 700"
definition FLAPPY_WIN_SCORE :: int where "FLAPPY_WIN_SCORE = 10"
definition FLAPPY_INITIAL_HEALTH :: real where "FLAPPY_INITIAL_HEALTH = 100"
definition FLAPPY_DAMAGE_PER_HIT :: real where "FLAPPY_DAMAGE_PER_HIT = 25"
definition FLAPPY_MIN_HORIZONTAL_PIPE_SPACING :: real where
  "FLAPPY_MIN_HORIZONTAL_PIPE_SPACING = 250"

datatype FlappyGameScreen = FLAPPY_MENU | FLAPPY_PLAYING | FLAPPY_GAME_OVER | FLAPPY_WIN

record Bird =
  m_position :: Vector2
  m_velocityY :: real
  m_radius :: real
  m_health :: real
  b_screenW :: int
  b_screenH :: int

record Pipe =
  m_topRect :: Rectangle
  m_bottomRect :: Rectangle
  m_scored :: bool
  pipe_screenH :: int

record FlappyLevel =
  f_screenWidth :: int
  f_screenHeight :: int
  m_bird :: "Bird option"          \<comment> \<open>a \<open>unique_ptr\<close>, null until \<open>Load\<close>\<close>
  m_pipes :: "Pipe list"
  m_score :: int
  f_currentScreen :: FlappyGameScreen
  m_gen :: int                     \<comment> \<open>how many draws the level's engine has served\<close>
  f_levelFinished :: bool
  f_playerWonLevel :: bool

definition m_distrib :: "int \<Rightarrow> int" where
  \<comment> \<open>\<open>uniform_int_distribution(FLAPPY_PIPE_GAP, GLOBAL_SCREEN_HEIGHT - FLAPPY_PIPE_GAP)\<close>
      applied to an output of the engine\<close>
  "m_distrib k =
     FLAPPY_PIPE_GAP + k mod (GLOBAL_SCREEN_HEIGHT - FLAPPY_PIPE_GAP - FLAPPY_PIPE_GAP + 1)"

definition Bird_new :: "int \<Rightarrow> int \<Rightarrow> Bird" where
  "Bird_new screenW screenH =
     \<lparr>m_position = Vec (real_of_int screenW / 4) (real_of_int screenH / 2),
      m_velocityY = 0, m_radius = FLAPPY_BIRD_RADIUS, m_health = FLAPPY_INITIAL_HEALTH,
      b_screenW = screenW, b_screenH = screenH\<rparr>"

definition Jump :: "Bird \<Rightarrow> Bird" where
  "Jump b = b\<lparr>m_velocityY := FLAPPY_BIRD_JUMP_STRENGTH\<rparr>"

definition takeDamage :: "real \<Rightarrow> Bird \<Rightarrow> Bird" where
  "takeDamage amount b =
     (let h = m_health b - amount in b\<lparr>m_health := (if h < 0 then 0 else h)\<rparr>)"

definition Bird_Update :: "real \<Rightarrow> Bird \<Rightarrow> Bird" where
  "Bird_Update dt b =
     (let v1 = m_velocityY b + FLAPPY_GRAVITY * dt;
          y1 = vy (m_position b) + v1 * dt;
          lo = m_radius b * (3 / 2);
          (y2, v2) = (if y1 < lo then (lo, 0) else (y1, v1));
          hi = real_of_int (b_screenH b) - m_radius b * (3 / 2);
          (y3, v3) = (if y2 > hi then (hi, 0) else (y2, v2))
      in b\<lparr>m_position := (m_position b)\<lparr>vy := y3\<rparr>, m_velocityY := v3\<rparr>)"

definition Pipe_new :: "real \<Rightarrow> real \<Rightarrow> int \<Rightarrow> Pipe" where
  "Pipe_new startX gapY screenH =
     \<lparr>m_topRect = Rect startX 0 (real_of_int FLAPPY_PIPE_WIDTH)
                    (gapY - real_of_int (int_quot FLAPPY_PIPE_GAP 2)),
      m_bottomRect = Rect startX (gapY + real_of_int (int_quot FLAPPY_PIPE_GAP 2))
                       (real_of_int FLAPPY_PIPE_WIDTH)
                       (real_of_int screenH - (gapY + real_of_int (int_quot FLAPPY_PIPE_GAP 2))),
      m_scored = False, pipe_screenH = screenH\<rparr>"

definition markScored :: "Pipe \<Rightarrow> Pipe" where
  "markScored p = p\<lparr>m_scored := True\<rparr>"

definition Pipe_Update :: "real \<Rightarrow> Pipe \<Rightarrow> Pipe" where
  "Pipe_Update dt p =
     p\<lparr>m_topRect := (m_topRect p)\<lparr>rx := rx (m_topRect p) - FLAPPY_PIPE_SPEED * dt\<rparr>,
       m_bottomRect := (m_bottomRect p)\<lparr>rx := rx (m_bottomRect p) - FLAPPY_PIPE_SPEED * dt\<rparr>\<rparr>"

definition FlappyLevel_new :: "int \<Rightarrow> int \<Rightarrow> FlappyLevel" where
  "FlappyLevel_new screenW screenH =
     \<lparr>f_screenWidth = screenW, f_screenHeight = screenH, m_bird = None, m_pipes = [],
      m_score = 0, f_currentScreen = FLAPPY_MENU, m_gen = 0,
      f_levelFinished = False, f_playerWonLevel = False\<rparr>"

definition two_fresh_pipes :: "(int \<Rightarrow> int) \<Rightarrow> FlappyLevel \<Rightarrow> FlappyLevel" where
  \<comment> \<open>the two \<open>push_back\<close> of \<open>InitFlappyGame\<close> and of the retry, after \<open>m_pipes.clear()\<close>\<close>
  "two_fresh_pipes rnd s =
     s\<lparr>m_pipes :=
         [Pipe_new (real_of_int (f_screenWidth s))
                   (real_of_int (m_distrib (rnd (m_gen s)))) (f_screenHeight s),
          Pipe_new (real_of_int (f_screenWidth s) + FLAPPY_MIN_HORIZONTAL_PIPE_SPACING)
                   (real_of_int (m_distrib (rnd (m_gen s + 1)))) (f_screenHeight s)],
       m_gen := m_gen s + 2\<rparr>"

definition InitFlappyGame :: "(int \<Rightarrow> int) \<Rightarrow> FlappyLevel \<Rightarrow> FlappyLevel" where
  "InitFlappyGame rnd s =
     (two_fresh_pipes rnd
        (s\<lparr>m_bird := Some (Bird_new (f_screenWidth s) (f_screenHeight s)), m_pipes := [],
           m_score := 0, f_levelFinished := False, f_playerWonLevel := False\<rparr>))
       \<lparr>f_currentScreen := FLAPPY_MENU\<rparr>"

definition FlappyLevel_Load :: "(int \<Rightarrow> int) \<Rightarrow> FlappyLevel \<Rightarrow> FlappyLevel" where
  "FlappyLevel_Load rnd s = InitFlappyGame rnd s"

definition FlappyLevel_Unload :: "FlappyLevel \<Rightarrow> FlappyLevel" where
  "FlappyLevel_Unload s = s\<lparr>m_pipes := []\<rparr>"

definition GenerateNewPipe :: "(int \<Rightarrow> int) \<Rightarrow> FlappyLevel \<Rightarrow> FlappyLevel" where
  "GenerateNewPipe rnd s =
     (let gapY = real_of_int (m_distrib (rnd (m_gen s)));
          newPipeX = (if m_pipes s = [] then real_of_int (f_screenWidth s)
                      else rx (m_topRect (last (m_pipes s))) + FLAPPY_MIN_HORIZONTAL_PIPE_SPACING)
      in s\<lparr>m_pipes := m_pipes s @ [Pipe_new newPipeX gapY (f_screenHeight s)],
           m_gen := m_gen s + 1\<rparr>)"

subsection \<open>One frame of the flappy level\<close>

definition pipe_hits_bird :: "Bird \<Rightarrow> Pipe \<Rightarrow> bool" where
  "pipe_hits_bird b p \<longleftrightarrow>
     CheckCollisionCircleRec (m_position b) (m_radius b) (m_topRect p) \<or>
     CheckCollisionCircleRec (m_position b) (m_radius b) (m_bottomRect p)"

definition pipe_passed :: "Bird \<Rightarrow> Pipe \<Rightarrow> bool" where
  \<comment> \<open>the pipe's trailing edge is left of the bird's leading edge\<close>
  "pipe_passed b p \<longleftrightarrow>
     rx (m_topRect p) + real_of_int FLAPPY_PIPE_WIDTH < vx (m_position b) - m_radius b"

definition pipe_body :: "real \<Rightarrow> Bird \<Rightarrow> Pipe \<Rightarrow> Pipe \<times> bool \<times> bool" where
  \<comment> \<open>the body of the loop over the pipes, for one pipe: the pipe after it, whether it
      hit the bird, whether it scored\<close>
  "pipe_body dt b p =
     (let p1 = Pipe_Update dt p;
          hit = pipe_hits_bird b p1
      in if \<not> m_scored p1 \<and> pipe_passed b p1 then (markScored p1, hit, True)
         else (p1, hit, False))"

fun pipes_loop :: "real \<Rightarrow> Bird \<Rightarrow> Pipe list \<Rightarrow> int \<Rightarrow> bool \<Rightarrow> Pipe list \<times> int \<times> bool" where
  \<comment> \<open>the loop over \<open>m_pipes\<close>, with \<open>m_score\<close> and \<open>collisionOccurred\<close>\<close>
  "pipes_loop dt b [] sc coll = ([], sc, coll)"
| "pipes_loop dt b (p # ps) sc coll =
     (let (p', hit, scored) = pipe_body dt b p;
          (ps', sc', coll') = pipes_loop dt b ps (if scored then sc + 1 else sc)
                                (if hit then True else coll)
      in (p' # ps', sc', coll'))"

definition bird_start :: "FlappyLevel \<Rightarrow> Vector2" where
  "bird_start s = Vec (real_of_int (f_screenWidth s) / 4) (real_of_int (f_screenHeight s) / 2)"

definition handle_collision :: "(int \<Rightarrow> int) \<Rightarrow> Bird \<Rightarrow> FlappyLevel \<Rightarrow> FlappyLevel" where
  \<comment> \<open>the body of \<open>if (collisionOccurred)\<close>; \<open>b\<close> is the bird before the damage\<close>
  "handle_collision rnd b s =
     (let b1 = takeDamage FLAPPY_DAMAGE_PER_HIT b
      in if m_health b1 \<le> 0
         then s\<lparr>m_bird := Some b1, f_currentScreen := FLAPPY_GAME_OVER,
                f_levelFinished := True, f_playerWonLevel := False\<rparr>
         else two_fresh_pipes rnd
                (s\<lparr>m_bird := Some (b1\<lparr>m_position := bird_start s, m_velocityY := 0\<rparr>),
                   m_pipes := []\<rparr>))"

definition remove_offscreen :: "FlappyLevel \<Rightarrow> FlappyLevel" where
  "remove_offscreen s =
     (if m_pipes s \<noteq> [] \<and> rx (m_topRect (hd (m_pipes s))) + real_of_int FLAPPY_PIPE_WIDTH < 0
      then s\<lparr>m_pipes := tl (m_pipes s)\<rparr> else s)"

definition generate_if_needed :: "(int \<Rightarrow> int) \<Rightarrow> FlappyLevel \<Rightarrow> error + FlappyLevel" where
  \<comment> \<open>\<open>m_pipes.back()\<close> is evaluated whatever the vector holds\<close>
  "generate_if_needed rnd s =
     (if m_pipes s = [] then Inl EmptyVectorAccess
      else if rx (m_topRect (last (m_pipes s)))
                < real_of_int (f_screenWidth s) - FLAPPY_MIN_HORIZONTAL_PIPE_SPACING
           then Inr (GenerateNewPipe rnd s)
           else Inr s)"

definition check_win :: "FlappyLevel \<Rightarrow> FlappyLevel" where
  "check_win s =
     (if m_score s \<ge> FLAPPY_WIN_SCORE
      then s\<lparr>f_currentScreen := FLAPPY_WIN, f_levelFinished := True, f_playerWonLevel := True\<rparr>
      else s)"

definition jump_on_space :: "frame \<Rightarrow> FlappyLevel \<Rightarrow> error + FlappyLevel" where
  "jump_on_space f s =
     (if keySpacePressed f
      then (case m_bird s of None \<Rightarrow> Inl NullPointer
            | Some b \<Rightarrow> Inr (s\<lparr>m_bird := Some (Jump b)\<rparr>))
      else Inr s)"

definition touches_screen_edge :: "FlappyLevel \<Rightarrow> Bird \<Rightarrow> bool" where
  "touches_screen_edge s b \<longleftrightarrow>
     vy (m_position b) + m_radius b \<ge> real_of_int (f_screenHeight s) \<or>
     vy (m_position b) - m_radius b \<le> 0"

definition flappy_playing :: "(int \<Rightarrow> int) \<Rightarrow> frame \<Rightarrow> FlappyLevel \<Rightarrow> error + FlappyLevel" where
  \<comment> \<open>\<open>case FLAPPY_PLAYING\<close> of \<open>Update\<close>\<close>
  "flappy_playing rnd f s =
     (case m_bird s of
        None \<Rightarrow> Inl NullPointer
      | Some b0 \<Rightarrow>
          let b = Bird_Update (deltaTime f) b0;
              (ps, sc, coll) = pipes_loop (deltaTime f) b (m_pipes s) (m_score s) False;
              s1 = s\<lparr>m_bird := Some b, m_pipes := ps, m_score := sc\<rparr>;
              collisionOccurred = (if touches_screen_edge s1 b then True else coll);
              s2 = (if collisionOccurred then handle_collision rnd b s1 else s1)
          in (case generate_if_needed rnd (remove_offscreen s2) of
                Inl e \<Rightarrow> Inl e
              | Inr s3 \<Rightarrow> jump_on_space f (check_win s3)))"

definition FlappyLevel_Update :: "(int \<Rightarrow> int) \<Rightarrow> frame \<Rightarrow> FlappyLevel \<Rightarrow> error + FlappyLevel" where
  "FlappyLevel_Update rnd f s =
     (case f_currentScreen s of
        FLAPPY_MENU \<Rightarrow>
          Inr (if keySpacePressed f then s\<lparr>f_currentScreen := FLAPPY_PLAYING\<rparr> else s)
      | FLAPPY_PLAYING \<Rightarrow> flappy_playing rnd f s
      | FLAPPY_GAME_OVER \<Rightarrow> Inr s
      | FLAPPY_WIN \<Rightarrow> Inr s)"

definition FlappyLevel_IsComplete :: "FlappyLevel \<Rightarrow> bool" where
  "FlappyLevel_IsComplete s = f_levelFinished s"

definition Flappy_DidPlayerWinThisLevel :: "FlappyLevel \<Rightarrow> bool" where
  "Flappy_DidPlayerWinThisLevel s = f_playerWonLevel s"

fun flappy_frames :: "(int \<Rightarrow> int) \<Rightarrow> FlappyLevel \<Rightarrow> frame list \<Rightarrow> error + FlappyLevel" where
  \<comment> \<open>\<open>Update\<close> once per frame, in order\<close>
  "flappy_frames rnd s [] = Inr s"
| "flappy_frames rnd s (f # fs) =
     (case FlappyLevel_Update rnd f s of Inl e \<Rightarrow> Inl e | Inr s' \<Rightarrow> flappy_frames rnd s' fs)"

subsection \<open>A session of the flappy level\<close>

definition flappy_session :: "(int \<Rightarrow> int) \<Rightarrow> frame list \<Rightarrow> error + FlappyLevel" where
  \<comment> \<open>the level as \<open>SetupGameLevels\<close> constructs it, loaded, then played frame by frame\<close>
  "flappy_session rnd fs =
     flappy_frames rnd
       (FlappyLevel_Load rnd (FlappyLevel_new GLOBAL_SCREEN_WIDTH GLOBAL_SCREEN_HEIGHT)) fs"

definition pipe_x :: "Pipe \<Rightarrow> real" where
  "pipe_x p = rx (m_topRect p)"

fun spaced :: "real list \<Rightarrow> bool" where
  \<comment> \<open>each position is one pipe spacing right of the one before\<close>
  "spaced [] = True"
| "spaced [x] = True"
| "spaced (x # y # xs) = (y = x + FLAPPY_MIN_HORIZONTAL_PIPE_SPACING \<and> spaced (y # xs))"

definition flappy_inv :: "FlappyLevel \<Rightarrow> bool" where
  \<comment> \<open>what every frame of a session keeps\<close>
  "flappy_inv s \<longleftrightarrow>
     m_bird s \<noteq> None \<and> 420 \<le> f_screenWidth s \<and> 2 \<le> length (m_pipes s) \<and>
     spaced (map pipe_x (m_pipes s)) \<and>
     (f_levelFinished s \<longrightarrow>
        f_currentScreen s = FLAPPY_GAME_OVER \<or> f_currentScreen s = FLAPPY_WIN)"

subsection \<open>One pipe over the frames that process it\<close>

text \<open>
  A pipe stays in \<open>m_pipes\<close> from the frame after its construction until it is erased or
  the vector is cleared, and in every playing frame in between the loop runs \<open>pipe_body\<close>
  on it once. A list of frame times and bird states is such a stretch of frames.
\<close>

fun pipe_after :: "Pipe \<Rightarrow> (real \<times> Bird) list \<Rightarrow> Pipe" where
  "pipe_after p [] = p"
| "pipe_after p ((dt, b) # rest) = pipe_after (fst (pipe_body dt b p)) rest"

fun pipe_increments :: "Pipe \<Rightarrow> (real \<times> Bird) list \<Rightarrow> nat" where
  \<comment> \<open>how many times the pipe made the loop run \<open>m_score++\<close>\<close>
  "pipe_increments p [] = 0"
| "pipe_increments p ((dt, b) # rest) =
     (if snd (snd (pipe_body dt b p)) then 1 else 0) + pipe_increments (fst (pipe_body dt b p)) rest"

definition passed_in :: "Pipe \<Rightarrow> (real \<times> Bird) list \<Rightarrow> nat \<Rightarrow> bool" where
  \<comment> \<open>in frame \<open>k\<close> the loop finds the pipe's trailing edge past the bird's leading edge\<close>
  "passed_in p hist k \<longleftrightarrow>
     pipe_passed (snd (hist ! k)) (Pipe_Update (fst (hist ! k)) (pipe_after p (take k hist)))"

definition scored_in :: "Pipe \<Rightarrow> (real \<times> Bird) list \<Rightarrow> nat \<Rightarrow> bool" where
  \<comment> \<open>in frame \<open>k\<close> the loop marks the pipe and increments the score\<close>
  "scored_in p hist k \<longleftrightarrow>
     snd (snd (pipe_body (fst (hist ! k)) (snd (hist ! k)) (pipe_after p (take k hist))))"

section \<open>Obstacle course level\<close>

definition OBSTACLE_PLAYER_SIZE :: real where "OBSTACLE_PLAYER_SIZE = 40"
definition OBSTACLE_PLAYER_SPEED :: real where "OBSTACLE_PLAYER_SPEED = 200"
definition OBSTACLE_JUMP_FORCE :: real where "OBSTACLE_JUMP_FORCE = 400"
definition OBSTACLE_GRAVITY :: real where "OBSTACLE_GRAVITY = 800"

datatype ObstacleGameScreen = OBSTACLE_TITLE | OBSTACLE_GAMEPLAY | OBSTACLE_ENDING

record GameObject =
  position :: Vector2
  bounds :: Rectangle

record OPlayer = GameObject +
  velocity :: Vector2
  onGround :: bool
  jumped :: bool
  op_screenW :: int
  op_screenH :: int

record ObstacleLevel =
  o_screenWidth :: int
  o_screenHeight :: int
  m_player :: OPlayer
  m_exitDoor :: GameObject
  m_obstacles :: "GameObject list"
  m_coins :: "GameObject list"
  o_currentScreen :: ObstacleGameScreen
  o_levelFinished :: bool
  o_playerWonLevel :: bool
  m_startPoint :: Vector2
  m_collectedCoins :: int
  m_totalCoins :: int

definition GameObject_new :: "Vector2 \<Rightarrow> real \<Rightarrow> real \<Rightarrow> GameObject" where
  "GameObject_new pos w h = \<lparr>position = pos, bounds = Rect (vx pos) (vy pos) w h\<rparr>"

definition GameObject_default :: GameObject where
  "GameObject_default = \<lparr>position = Vec 0 0, bounds = Rect 0 0 0 0\<rparr>"

definition Obstacle_new :: "Rectangle \<Rightarrow> GameObject" where
  "Obstacle_new rect = GameObject_new (Vec (rx rect) (ry rect)) (rwidth rect) (rheight rect)"

definition Coin_new :: "Vector2 \<Rightarrow> real \<Rightarrow> GameObject" where
  "Coin_new pos sz = GameObject_new pos sz sz"

definition ExitDoor_new :: "Rectangle \<Rightarrow> GameObject" where
  "ExitDoor_new rect = GameObject_new (Vec (rx rect) (ry rect)) (rwidth rect) (rheight rect)"

definition OPlayer_new :: "Vector2 \<Rightarrow> real \<Rightarrow> int \<Rightarrow> int \<Rightarrow> OPlayer" where
  "OPlayer_new pos sz screenW screenH =
     \<lparr>position = pos, bounds = Rect (vx pos) (vy pos) sz sz,
      velocity = Vec 0 0, onGround = False, jumped = False,
      op_screenW = screenW, op_screenH = screenH\<rparr>"

definition SetPosition :: "Vector2 \<Rightarrow> OPlayer \<Rightarrow> OPlayer" where
  "SetPosition newPos p =
     p\<lparr>position := newPos, bounds := (bounds p)\<lparr>rx := vx newPos, ry := vy newPos\<rparr>\<rparr>"

definition OPlayer_Update :: "frame \<Rightarrow> OPlayer \<Rightarrow> OPlayer" where
  "OPlayer_Update f p =
     (let dt = deltaTime f;
          vy1 = vy (velocity p) + OBSTACLE_GRAVITY * dt;
          vx1 = (if keyLeft f then - OBSTACLE_PLAYER_SPEED
                 else if keyRight f then OBSTACLE_PLAYER_SPEED else 0);
          jump = (keySpacePressed f \<and> onGround p);
          vy2 = (if jump then - OBSTACLE_JUMP_FORCE else vy1);
          jumped1 = (if jump then True else jumped p);
          px1 = vx (position p) + vx1 * dt;
          py1 = vy (position p) + vy2 * dt;
          bounds1 = (bounds p)\<lparr>rx := px1, ry := py1\<rparr>;
          (px2, vx2) = (if px1 < 0 then (0, 0)
                        else if px1 + rwidth bounds1 > real_of_int (op_screenW p)
                             then (real_of_int (op_screenW p) - rwidth bounds1, 0)
                             else (px1, vx1))
      in p\<lparr>position := Vec px2 py1, bounds := bounds1, velocity := Vec vx2 vy2,
           onGround := False, jumped := jumped1\<rparr>)"

definition ObstacleLevel_new :: "int \<Rightarrow> int \<Rightarrow> ObstacleLevel" where
  "ObstacleLevel_new screenW screenH =
     \<lparr>o_screenWidth = screenW, o_screenHeight = screenH,
      m_player = OPlayer_new (Vec 100 (real_of_int screenH - OBSTACLE_PLAYER_SIZE - 50))
                   OBSTACLE_PLAYER_SIZE screenW screenH,
      m_exitDoor = GameObject_default, m_obstacles = [], m_coins = [],
      o_currentScreen = OBSTACLE_TITLE, o_levelFinished = False, o_playerWonLevel = False,
      m_startPoint = Vec 0 0, m_collectedCoins = 0, m_totalCoins = 0\<rparr>"

definition level_obstacles :: "int \<Rightarrow> int \<Rightarrow> GameObject list" where
  \<comment> \<open>the ground, then the platforms, in the order of the \<open>push_back\<close>\<close>
  "level_obstacles screenW screenH =
     (let W = real_of_int screenW; H = real_of_int screenH
      in map Obstacle_new
           [Rect 0 (H - 50) W 50,
            Rect 150 (H - 150) 100 20,
            Rect 300 (H - 250) 90 20,
            Rect 450 (H - 350) 80 20,
            Rect 550 (H - 300) 60 20,
            Rect 700 (H - 300) 60 20,
            Rect 800 (H - 400) 50 20,
            Rect 900 (H - 500) 50 20,
            Rect 800 (H - 600) 50 20,
            Rect 950 (H - 550) 60 20,
            Rect 1100 (H - 450) 70 20,
            Rect 1150 (H - 300) 50 20,
            Rect (W - 150) (H - 100) 100 20,
            Rect 1000 (H - 200) 80 20])"

fun spawn_coins :: "int \<Rightarrow> real \<Rightarrow> GameObject list \<Rightarrow> GameObject list" where
  \<comment> \<open>one coin above every obstacle that is a platform\<close>
  "spawn_coins screenH coinSz [] = []"
| "spawn_coins screenH coinSz (obs # rest) =
     (if rheight (bounds obs) < 50 \<and> ry (bounds obs) < real_of_int (screenH - 50)
      then Coin_new (Vec (rx (bounds obs) + rwidth (bounds obs) / 2 - coinSz / 2)
                         (ry (bounds obs) - coinSz - 10)) coinSz
           # spawn_coins screenH coinSz rest
      else spawn_coins screenH coinSz rest)"

definition InitObstacleGame :: "ObstacleLevel \<Rightarrow> ObstacleLevel" where
  "InitObstacleGame s =
     (let p = OPlayer_new (Vec 100 (real_of_int (o_screenHeight s) - OBSTACLE_PLAYER_SIZE - 50))
                OBSTACLE_PLAYER_SIZE (o_screenWidth s) (o_screenHeight s);
          obstacles = level_obstacles (o_screenWidth s) (o_screenHeight s);
          cs = spawn_coins (o_screenHeight s) 20 obstacles
      in s\<lparr>m_player := p, m_startPoint := position p,
           m_exitDoor := ExitDoor_new (Rect (real_of_int (o_screenWidth s) - 100) 50 50 80),
           m_obstacles := obstacles, m_coins := cs,
           m_totalCoins := int (length cs), m_collectedCoins := 0,
           o_currentScreen := OBSTACLE_GAMEPLAY,
           o_levelFinished := False, o_playerWonLevel := False\<rparr>)"

definition ObstacleLevel_Load :: "ObstacleLevel \<Rightarrow> ObstacleLevel" where
  "ObstacleLevel_Load s = InitObstacleGame s"

definition ObstacleLevel_Unload :: "ObstacleLevel \<Rightarrow> ObstacleLevel" where
  "ObstacleLevel_Unload s = s\<lparr>m_obstacles := [], m_coins := []\<rparr>"

subsection \<open>One frame of the obstacle course\<close>

definition lands_on :: "real \<Rightarrow> OPlayer \<Rightarrow> GameObject \<Rightarrow> bool" where
  \<comment> \<open>the test "collision from above"\<close>
  "lands_on dt p obs \<longleftrightarrow>
     vy (velocity p) > 0 \<and>
     ry (bounds p) + rheight (bounds p) - vy (velocity p) * dt \<le> ry (bounds obs)"

definition bumps_head :: "real \<Rightarrow> OPlayer \<Rightarrow> GameObject \<Rightarrow> bool" where
  \<comment> \<open>the test "collision from below", with \<open>bounds.y * dt\<close> as the source has it\<close>
  "bumps_head dt p obs \<longleftrightarrow>
     vy (velocity p) < 0 \<and>
     ry (bounds p) - ry (bounds p) * dt \<ge> ry (bounds obs) + rheight (bounds obs)"

definition hits_left_side :: "real \<Rightarrow> OPlayer \<Rightarrow> GameObject \<Rightarrow> bool" where
  "hits_left_side dt p obs \<longleftrightarrow>
     vx (velocity p) > 0 \<and>
     rx (bounds p) + rwidth (bounds p) - vx (velocity p) * dt \<le> rx (bounds obs)"

definition hits_right_side :: "real \<Rightarrow> OPlayer \<Rightarrow> GameObject \<Rightarrow> bool" where
  "hits_right_side dt p obs \<longleftrightarrow>
     vx (velocity p) < 0 \<and>
     rx (bounds p) - vx (velocity p) * dt \<ge> rx (bounds obs) + rwidth (bounds obs)"

definition resolve_obstacle :: "real \<Rightarrow> GameObject \<Rightarrow> OPlayer \<Rightarrow> OPlayer" where
  \<comment> \<open>the body of the loop over \<open>m_obstacles\<close>\<close>
  "resolve_obstacle dt obs p =
     (if CheckCollisionRecs (bounds p) (bounds obs)
      then if lands_on dt p obs
           then (SetPosition (Vec (vx (position p)) (ry (bounds obs) - rheight (bounds p))) p)
                  \<lparr>velocity := Vec (vx (velocity p)) 0, onGround := True, jumped := False\<rparr>
           else if bumps_head dt p obs
           then (SetPosition (Vec (vx (position p)) (ry (bounds obs) + rheight (bounds obs))) p)
                  \<lparr>velocity := Vec (vx (velocity p)) 0\<rparr>
           else if hits_left_side dt p obs
           then (SetPosition (Vec (rx (bounds obs) - rwidth (bounds p)) (vy (position p))) p)
                  \<lparr>velocity := Vec 0 (vy (velocity p))\<rparr>
           else if hits_right_side dt p obs
           then (SetPosition (Vec (rx (bounds obs) + rwidth (bounds obs)) (vy (position p))) p)
                  \<lparr>velocity := Vec 0 (vy (velocity p))\<rparr>
           else p
      else p)"

fun resolve_obstacles :: "real \<Rightarrow> GameObject list \<Rightarrow> OPlayer \<Rightarrow> OPlayer" where
  "resolve_obstacles dt [] p = p"
| "resolve_obstacles dt (obs # rest) p = resolve_obstacles dt rest (resolve_obstacle dt obs p)"

fun collect_course_coins :: "OPlayer \<Rightarrow> GameObject list \<Rightarrow> GameObject list \<times> int" where
  \<comment> \<open>the loop that erases the coins the player touches; what stays and how many went\<close>
  "collect_course_coins p [] = ([], 0)"
| "collect_course_coins p (coin # rest) =
     (let (kept, n) = collect_course_coins p rest
      in if CheckCollisionRecs (bounds p) (bounds coin) then (kept, n + 1)
         else (coin # kept, n))"

definition obstacle_gameplay :: "frame \<Rightarrow> ObstacleLevel \<Rightarrow> ObstacleLevel" where
  \<comment> \<open>\<open>case OBSTACLE_GAMEPLAY\<close> of \<open>Update\<close>\<close>
  "obstacle_gameplay f s =
     (let p1 = (OPlayer_Update f (m_player s))\<lparr>onGround := False\<rparr>;
          p2 = resolve_obstacles (deltaTime f) (m_obstacles s) p1;
          (kept, n) = collect_course_coins p2 (m_coins s);
          s1 = s\<lparr>m_player := p2, m_coins := kept, m_collectedCoins := m_collectedCoins s + n\<rparr>;
          s2 = (if vy (position p2) > real_of_int (o_screenHeight s1)
                then s1\<lparr>o_levelFinished := True, o_playerWonLevel := False,
                        o_currentScreen := OBSTACLE_ENDING\<rparr>
                else s1)
      in if CheckCollisionRecs (bounds p2) (bounds (m_exitDoor s2)) \<and>
            m_collectedCoins s2 = m_totalCoins s2
         then s2\<lparr>o_playerWonLevel := True, o_levelFinished := True,
                 o_currentScreen := OBSTACLE_ENDING\<rparr>
         else s2)"

definition ObstacleLevel_Update :: "frame \<Rightarrow> ObstacleLevel \<Rightarrow> ObstacleLevel" where
  "ObstacleLevel_Update f s =
     (case o_currentScreen s of
        OBSTACLE_GAMEPLAY \<Rightarrow> obstacle_gameplay f s
      | OBSTACLE_ENDING \<Rightarrow> s
      | OBSTACLE_TITLE \<Rightarrow> s)"

definition ObstacleLevel_IsComplete :: "ObstacleLevel \<Rightarrow> bool" where
  "ObstacleLevel_IsComplete s = o_levelFinished s"

definition Obstacle_DidPlayerWinThisLevel :: "ObstacleLevel \<Rightarrow> bool" where
  "Obstacle_DidPlayerWinThisLevel s = o_playerWonLevel s"

fun obstacle_frames :: "ObstacleLevel \<Rightarrow> frame list \<Rightarrow> ObstacleLevel" where
  \<comment> \<open>\<open>Update\<close> once per frame, in order\<close>
  "obstacle_frames s [] = s"
| "obstacle_frames s (f # fs) = obstacle_frames (ObstacleLevel_Update f s) fs"

section \<open>The levels behind their common interface\<close>

datatype Levels =
    Maze MazeLevel
  | SpaceInvaders SpaceInvadersLevel
  | Flappy FlappyLevel
  | Obstacle ObstacleLevel

record environment =
  s_maze_gen :: "int \<Rightarrow> int"     \<comment> \<open>the outputs of the maze's engine\<close>
  s_si_rng :: "int \<Rightarrow> int"       \<comment> \<open>the outputs of the invaders' engine\<close>
  s_flappy_gen :: "int \<Rightarrow> int"   \<comment> \<open>the outputs of the flappy level's engine\<close>
  stack_depth :: nat              \<comment> \<open>how deep the call stack lets the carving recurse\<close>

definition newline :: char where
  "newline = CHR 0x0A"

fun Levels_GetName :: "Levels \<Rightarrow> string" where
  "Levels_GetName (Maze m) = ''Maze Level''"
| "Levels_GetName (SpaceInvaders s) = ''Space Invaders Level''"
| "Levels_GetName (Flappy s) = ''Flappy Level''"
| "Levels_GetName (Obstacle s) = ''Obstacle Course Level''"

fun Levels_GetInstructions :: "Levels \<Rightarrow> string" where
  "Levels_GetInstructions (Maze m) =
     ''Navigate the maze using ARROW keys. '' @ [newline] @ '' '' @ [newline] @
     '' Collect all coins and reach the green exit to win.''"
| "Levels_GetInstructions (SpaceInvaders s) =
     ''Use LEFT/RIGHT arrows to move. '' @ [newline] @ '' '' @ [newline] @
     '' Press SPACE to shoot. Destroy all invaders before'' @ [newline] @ '' '' @ [newline] @
     ''  they reach the bottom or '' @ [newline] @ '' '' @ [newline] @
     '' you run out of lives!''"
| "Levels_GetInstructions (Flappy s) =
     ''Press SPACE to make your character flap.'' @ [newline] @ '' '' @ [newline] @
     '' Avoid hitting the pipes and the ground. '' @ [newline] @ '' '' @ [newline] @
     ''Get a score of 10 to win.''"
| "Levels_GetInstructions (Obstacle s) =
     ''Use LEFT/RIGHT arrows to move. '' @ [newline] @ '' '' @ [newline] @
     '' Press SPACE to jump. '' @ [newline] @ '' '' @ [newline] @
     '' Collect all coins and reach the EXIT door to win!''"

fun Levels_Load :: "environment \<Rightarrow> Levels \<Rightarrow> error + Levels" where
  "Levels_Load env (Maze m) =
     (case MazeLevel_Load (s_maze_gen env) (stack_depth env) m of
        Inl e \<Rightarrow> Inl e | Inr m' \<Rightarrow> Inr (Maze m'))"
| "Levels_Load env (SpaceInvaders s) = Inr (SpaceInvaders (SpaceInvadersLevel_Load s))"
| "Levels_Load env (Flappy s) = Inr (Flappy (FlappyLevel_Load (s_flappy_gen env) s))"
| "Levels_Load env (Obstacle s) = Inr (Obstacle (ObstacleLevel_Load s))"

fun Levels_Unload :: "Levels \<Rightarrow> Levels" where
  "Levels_Unload (Maze m) = Maze (MazeLevel_Unload m)"
| "Levels_Unload (SpaceInvaders s) = SpaceInvaders (SpaceInvadersLevel_Unload s)"
| "Levels_Unload (Flappy s) = Flappy (FlappyLevel_Unload s)"
| "Levels_Unload (Obstacle s) = Obstacle (ObstacleLevel_Unload s)"

fun Levels_Update :: "environment \<Rightarrow> frame \<Rightarrow> Levels \<Rightarrow> error + Levels" where
  "Levels_Update env f (Maze m) =
     (case MazeLevel_Update f m of Inl e \<Rightarrow> Inl e | Inr m' \<Rightarrow> Inr (Maze m'))"
| "Levels_Update env f (SpaceInvaders s) =
     Inr (SpaceInvaders (SpaceInvadersLevel_Update (s_si_rng env) f s))"
| "Levels_Update env f (Flappy s) =
     (case FlappyLevel_Update (s_flappy_gen env) f s of
        Inl e \<Rightarrow> Inl e | Inr s' \<Rightarrow> Inr (Flappy s'))"
| "Levels_Update env f (Obstacle s) = Inr (Obstacle (ObstacleLevel_Update f s))"

fun Levels_IsComplete :: "Levels \<Rightarrow> bool" where
  "Levels_IsComplete (Maze m) = MazeLevel_IsComplete m"
| "Levels_IsComplete (SpaceInvaders s) = SpaceInvadersLevel_IsComplete s"
| "Levels_IsComplete (Flappy s) = FlappyLevel_IsComplete s"
| "Levels_IsComplete (Obstacle s) = ObstacleLevel_IsComplete s"

section \<open>The global state machine\<close>

datatype GameScreen =
    TITLE_SCREEN_GLOBAL
  | PLAYING_LEVEL
  | LEVEL_TRANSITION
  | GAME_OVER_GLOBAL
  | GAME_WON_GLOBAL

record Game =
  currentGlobalScreen :: GameScreen
  gameLevels :: "Levels list"               \<comment> \<open>the queue, its front first\<close>
  currentActiveLevel :: "Levels option"     \<comment> \<open>a \<open>unique_ptr\<close>; \<open>None\<close> is \<open>nullptr\<close>\<close>
  nextLevelName :: string
  nextLevelInstructions :: string
  showSufferMessage :: bool
  sufferMessageTimer :: real

definition SUFFER_MESSAGE_DISPLAY_TIME :: real where "SUFFER_MESSAGE_DISPLAY_TIME = 2"

definition confirmButton :: Rectangle where
  "confirmButton =
     Rect (real_of_int GLOBAL_SCREEN_WIDTH / 2 - 100) (real_of_int GLOBAL_SCREEN_HEIGHT * (3 / 4))
       200 50"

text \<open>
  Modelled from the spec: the point-in-rectangle test of the display/input backend
  (raylib's \<open>CheckCollisionPointRec\<close>), which is not part of this repository.
\<close>

definition CheckCollisionPointRec :: "Vector2 \<Rightarrow> Rectangle \<Rightarrow> bool" where
  "CheckCollisionPointRec pt rec \<longleftrightarrow>
     vx pt \<ge> rx rec \<and> vx pt < rx rec + rwidth rec \<and>
     vy pt \<ge> ry rec \<and> vy pt < ry rec + rheight rec"

definition initial_Game :: Game where
  "initial_Game =
     \<lparr>currentGlobalScreen = TITLE_SCREEN_GLOBAL, gameLevels = [], currentActiveLevel = None,
      nextLevelName = [], nextLevelInstructions = [],
      showSufferMessage = False, sufferMessageTimer = 0\<rparr>"

definition SetupGameLevels :: "Game \<Rightarrow> Game" where
  "SetupGameLevels g =
     g\<lparr>gameLevels :=
         [Maze (MazeLevel_new GLOBAL_SCREEN_WIDTH GLOBAL_SCREEN_HEIGHT),
          SpaceInvaders (SpaceInvadersLevel_new GLOBAL_SCREEN_WIDTH GLOBAL_SCREEN_HEIGHT),
          Flappy (FlappyLevel_new GLOBAL_SCREEN_WIDTH GLOBAL_SCREEN_HEIGHT),
          Obstacle (ObstacleLevel_new GLOBAL_SCREEN_WIDTH GLOBAL_SCREEN_HEIGHT)]\<rparr>"

definition LoadNextLevel :: "environment \<Rightarrow> Game \<Rightarrow> error + Game" where
  "LoadNextLevel env g =
     (let g1 = (case currentActiveLevel g of
                  Some lv \<Rightarrow> g\<lparr>currentActiveLevel := None\<rparr>
                | None \<Rightarrow> g)
      in case gameLevels g1 of
           lv # rest \<Rightarrow>
             (case Levels_Load env lv of
                Inl e \<Rightarrow> Inl e
              | Inr lv' \<Rightarrow> Inr (g1\<lparr>currentActiveLevel := Some lv', gameLevels := rest\<rparr>))
         | [] \<Rightarrow> Inr (g1\<lparr>currentActiveLevel := None\<rparr>))"

definition levelSucceeded :: "Levels \<Rightarrow> bool" where
  \<comment> \<open>the level is recognised by its name, then asked through a cast to its class\<close>
  "levelSucceeded lv =
     (if Levels_GetName lv = ''Space Invaders Level''
      then (case lv of SpaceInvaders s \<Rightarrow> (if \<not> SI_DidPlayerWinThisLevel s then False else True)
            | _ \<Rightarrow> True)
      else if Levels_GetName lv = ''Flappy Level''
      then (case lv of Flappy s \<Rightarrow> (if \<not> Flappy_DidPlayerWinThisLevel s then False else True)
            | _ \<Rightarrow> True)
      else if Levels_GetName lv = ''Obstacle Course Level''
      then (case lv of Obstacle s \<Rightarrow> (if \<not> Obstacle_DidPlayerWinThisLevel s then False else True)
            | _ \<Rightarrow> True)
      else True)"

definition playing_level :: "environment \<Rightarrow> frame \<Rightarrow> Game \<Rightarrow> error + Game" where
  \<comment> \<open>\<open>case PLAYING_LEVEL\<close> of the switch in \<open>main\<close>\<close>
  "playing_level env f g =
     (case currentActiveLevel g of
        Some lv \<Rightarrow>
          (case Levels_Update env f lv of
             Inl e \<Rightarrow> Inl e
           | Inr lv1 \<Rightarrow>
               if Levels_IsComplete lv1
               then let succeeded = levelSucceeded lv1;
                        g1 = g\<lparr>currentActiveLevel := Some (Levels_Unload lv1)\<rparr>
                    in if succeeded
                       then (case gameLevels g1 of
                               nxt # rest \<Rightarrow>
                                 Inr (g1\<lparr>nextLevelName := Levels_GetName nxt,
                                         nextLevelInstructions := Levels_GetInstructions nxt,
                                         currentGlobalScreen := LEVEL_TRANSITION\<rparr>)
                             | [] \<Rightarrow>
                                 Inr (g1\<lparr>currentActiveLevel := None,
                                         currentGlobalScreen := GAME_WON_GLOBAL\<rparr>))
                       else Inr (g1\<lparr>currentActiveLevel := None,
                                    currentGlobalScreen := GAME_OVER_GLOBAL\<rparr>)
               else Inr (g\<lparr>currentActiveLevel := Some lv1\<rparr>))
      | None \<Rightarrow> Inr (g\<lparr>currentGlobalScreen := GAME_OVER_GLOBAL\<rparr>))"

definition level_transition :: "environment \<Rightarrow> frame \<Rightarrow> Game \<Rightarrow> error + Game" where
  "level_transition env f g =
     (if mousePressed f \<and> CheckCollisionPointRec (mousePos f) confirmButton
      then (case LoadNextLevel env g of
              Inl e \<Rightarrow> Inl e
            | Inr g1 \<Rightarrow>
                Inr (if currentActiveLevel g1 \<noteq> None
                     then g1\<lparr>currentGlobalScreen := PLAYING_LEVEL\<rparr>
                     else g1\<lparr>currentGlobalScreen := GAME_WON_GLOBAL\<rparr>))
      else Inr g)"

definition back_to_title :: "frame \<Rightarrow> Game \<Rightarrow> Game" where
  \<comment> \<open>\<open>case GAME_OVER_GLOBAL\<close> and \<open>case GAME_WON_GLOBAL\<close>\<close>
  "back_to_title f g =
     (if keyEnterPressed f
      then g\<lparr>currentGlobalScreen := TITLE_SCREEN_GLOBAL, showSufferMessage := False,
             sufferMessageTimer := 0\<rparr>
      else g)"

definition update_switch :: "environment \<Rightarrow> frame \<Rightarrow> Game \<Rightarrow> error + Game" where
  \<comment> \<open>the \<open>switch (currentGlobalScreen)\<close> of the frame loop\<close>
  "update_switch env f g =
     (case currentGlobalScreen g of
        TITLE_SCREEN_GLOBAL \<Rightarrow> Inr g
      | PLAYING_LEVEL \<Rightarrow> playing_level env f g
      | LEVEL_TRANSITION \<Rightarrow> level_transition env f g
      | GAME_OVER_GLOBAL \<Rightarrow> Inr (back_to_title f g)
      | GAME_WON_GLOBAL \<Rightarrow> Inr (back_to_title f g))"

definition DrawStartingScreen :: "environment \<Rightarrow> frame \<Rightarrow> Game \<Rightarrow> error + Game" where
  \<comment> \<open>the title screen handles its two buttons while it draws\<close>
  "DrawStartingScreen env f g =
     (let escapeButtonRec = Rect (real_of_int GLOBAL_SCREEN_WIDTH / 2 - 150)
                                 (real_of_int GLOBAL_SCREEN_HEIGHT / 2 + 50) 300 70;
          sufferButtonRec = Rect (real_of_int GLOBAL_SCREEN_WIDTH / 2 - 150)
                                 (real_of_int GLOBAL_SCREEN_HEIGHT / 2 + 150) 300 70;
          clicked =
            (if mousePressed f
             then (if CheckCollisionPointRec (mousePos f) escapeButtonRec
                   then (case LoadNextLevel env
                                (SetupGameLevels (g\<lparr>showSufferMessage := False\<rparr>)) of
                           Inl e \<Rightarrow> Inl e
                         | Inr g2 \<Rightarrow> Inr (g2\<lparr>currentGlobalScreen := PLAYING_LEVEL\<rparr>))
                   else if CheckCollisionPointRec (mousePos f) sufferButtonRec
                   then Inr (g\<lparr>showSufferMessage := True, sufferMessageTimer := 0\<rparr>)
                   else Inr g)
             else Inr g)
      in case clicked of
           Inl e \<Rightarrow> Inl e
         | Inr g3 \<Rightarrow>
             if showSufferMessage g3
             then let t = sufferMessageTimer g3 + deltaTime f
                  in Inr (if t < SUFFER_MESSAGE_DISPLAY_TIME then g3\<lparr>sufferMessageTimer := t\<rparr>
                          else g3\<lparr>sufferMessageTimer := t, showSufferMessage := False\<rparr>)
             else Inr g3)"

definition draw_phase :: "environment \<Rightarrow> frame \<Rightarrow> Game \<Rightarrow> error + Game" where
  \<comment> \<open>between \<open>BeginDrawing\<close> and \<open>EndDrawing\<close>: only the title screen changes the state\<close>
  "draw_phase env f g =
     (if currentGlobalScreen g = PLAYING_LEVEL \<and> currentActiveLevel g \<noteq> None then Inr g
      else if currentGlobalScreen g = TITLE_SCREEN_GLOBAL then DrawStartingScreen env f g
      else Inr g)"

definition main_frame :: "environment \<Rightarrow> frame \<Rightarrow> Game \<Rightarrow> error + Game" where
  \<comment> \<open>one iteration of \<open>while (!WindowShouldClose())\<close>\<close>
  "main_frame env f g =
     (case update_switch env f g of Inl e \<Rightarrow> Inl e | Inr g1 \<Rightarrow> draw_phase env f g1)"

definition level_won :: "Levels \<Rightarrow> bool" where
  \<comment> \<open>the spec's "the level's win condition holds": the maze counts any completion as a
      win, the other levels tell through their own flag\<close>
  "level_won lv =
     (case lv of
        Maze m \<Rightarrow> True
      | SpaceInvaders s \<Rightarrow> gameWon s
      | Flappy s \<Rightarrow> f_playerWonLevel s
      | Obstacle s \<Rightarrow> o_playerWonLevel s)"

section \<open>Sample inputs\<close>

definition quiet_frame :: frame where
  \<comment> \<open>a 64th of a second in which nothing is pressed\<close>
  "quiet_frame =
     \<lparr>deltaTime = 1 / 64, currentTime = 1, keyLeft = False, keyRight = False, keyUp = False,
      keyDown = False, keySpaceDown = False, keySpacePressed = False, keyEnterPressed = False,
      mousePressed = False, mousePos = Vec 0 0\<rparr>"

definition sample_env :: environment where
  "sample_env =
     \<lparr>s_maze_gen = (\<lambda>n. 7 * n + 3), s_si_rng = (\<lambda>n. 4294967295), s_flappy_gen = (\<lambda>n. 210),
      stack_depth = 1000\<rparr>"

definition invaders_cleared :: Levels where
  \<comment> \<open>a space invaders level whose last invader has just been destroyed\<close>
  "invaders_cleared =
     SpaceInvaders ((SpaceInvadersLevel_Load
                      (SpaceInvadersLevel_new GLOBAL_SCREEN_WIDTH GLOBAL_SCREEN_HEIGHT))
                    \<lparr>invaders := map (\<lambda>iv. iv\<lparr>i_active := False\<rparr>) spawn_invaders,
                      score := 1600, gameWon := True\<rparr>)"

definition game_after_invaders :: Game where
  \<comment> \<open>the session while the second level is played: two levels wait in the queue\<close>
  "game_after_invaders =
     initial_Game
       \<lparr>currentGlobalScreen := PLAYING_LEVEL,
        currentActiveLevel := Some invaders_cleared,
        gameLevels := [Flappy (FlappyLevel_new GLOBAL_SCREEN_WIDTH GLOBAL_SCREEN_HEIGHT),
                       Obstacle (ObstacleLevel_new GLOBAL_SCREEN_WIDTH GLOBAL_SCREEN_HEIGHT)]\<rparr>"

definition game_without_level :: Game where
  \<comment> \<open>the playing state with nothing loaded\<close>
  "game_without_level = initial_Game\<lparr>currentGlobalScreen := PLAYING_LEVEL\<rparr>"

definition sixteenth :: frame where
  \<comment> \<open>a 16th of a second in which nothing is pressed\<close>
  "sixteenth = quiet_frame\<lparr>deltaTime := 1 / 16\<rparr>"

definition course_loaded :: ObstacleLevel where
  \<comment> \<open>the obstacle course as \<open>SetupGameLevels\<close> builds it and \<open>Load\<close> prepares it\<close>
  "course_loaded = ObstacleLevel_Load (ObstacleLevel_new GLOBAL_SCREEN_WIDTH GLOBAL_SCREEN_HEIGHT)"

definition head_bump_frames :: "frame list" where
  \<comment> \<open>settle on the ground, one step to the right (under the first platform), jump,
      then rise for a frame\<close>
  "head_bump_frames =
     [sixteenth, sixteenth\<lparr>keyRight := True\<rparr>,
      sixteenth\<lparr>keySpaceDown := True, keySpacePressed := True\<rparr>, sixteenth]"

definition gap_360 :: "int \<Rightarrow> int" where
  \<comment> \<open>an engine whose every draw puts the gap of a pipe at \<open>y = 360\<close>\<close>
  "gap_360 n = 210"

definition stall :: "real \<Rightarrow> frame" where
  \<comment> \<open>a frame that took \<open>d\<close> seconds, nothing pressed\<close>
  "stall d = quiet_frame\<lparr>deltaTime := d\<rparr>"

definition press_space :: frame where
  "press_space = quiet_frame\<lparr>keySpaceDown := True, keySpacePressed := True\<rparr>"

definition lag_frames :: "frame list" where
  \<comment> \<open>start the flappy level; three stalls of ten seconds, each of which ends with the
      first pipe on the bird; then stalls that carry one pipe after the other over the
      bird between two frames, nine of them in all\<close>
  "lag_frames =
     [press_space, stall 10, stall 10, stall 10, stall 1] @ replicate 12 (stall (5 / 2))"

definition flappy_summary :: "FlappyLevel \<Rightarrow> FlappyGameScreen \<times> int \<times> real option \<times> bool \<times> bool" where
  "flappy_summary s =
     (f_currentScreen s, m_score s, map_option m_health (m_bird s),
      FlappyLevel_IsComplete s, Flappy_DidPlayerWinThisLevel s)"

definition first_playing :: FlappyLevel where
  "first_playing = projr (flappy_session gap_360 [press_space])"

definition before_last_hit :: FlappyLevel where
  \<comment> \<open>the flappy level after \<open>lag_frames\<close>\<close>
  "before_last_hit = projr (flappy_session gap_360 lag_frames)"

definition after_last_hit :: FlappyLevel where
  \<comment> \<open>the level of a frame of four seconds after \<open>lag_frames\<close>, when \<open>if (collisionOccurred)\<close>
      has been executed\<close>
  "after_last_hit =
     (let s = before_last_hit;
          b = Bird_Update 4 (the (m_bird s));
          (ps, sc, coll) = pipes_loop 4 b (m_pipes s) (m_score s) False
      in handle_collision gap_360 b (s\<lparr>m_bird := Some b, m_pipes := ps, m_score := sc\<rparr>))"

definition floor_bird :: Bird where
  "floor_bird =
     (Bird_new GLOBAL_SCREEN_WIDTH GLOBAL_SCREEN_HEIGHT)\<lparr>m_position := Vec 320 690, m_health := 25\<rparr>"

definition passing_history :: "(real \<times> Bird) list" where
  "passing_history = (1, floor_bird) # replicate 5 (5 / 2, floor_bird)"

definition first_pipe :: Pipe where
  "first_pipe = Pipe_new 1280 360 GLOBAL_SCREEN_HEIGHT"

definition before_first_score :: FlappyLevel where
  "before_first_score = projr (flappy_session gap_360 (take 8 lag_frames))"





section \<open>Properties\<close>

lemma int_rem_2_even: "(int_rem a 2 = 0) = even a"
  by (auto simp: int_rem_def signed_modulo_int_def sgn_if)

subsection \<open>Maze dimensions\<close>

lemma odd_int32: "odd n \<Longrightarrow> odd (int32 n)"
  by (simp add: int32_def dvd_mod_iff)

lemma int32_id: "INT_MIN \<le> n \<Longrightarrow> n \<le> INT_MAX \<Longrightarrow> int32 n = n"
  by (simp add: int32_def INT_MIN_def INT_MAX_def)

lemma make_odd_positive_odd: "odd (make_odd_positive n) \<and> 0 < make_odd_positive n"
  using odd_int32 [of "n - 1"]
  by (simp add: make_odd_positive_def Let_def int_rem_2_even)

lemma at_least_3_odd: "odd n \<Longrightarrow> odd (at_least_3 n) \<and> 3 \<le> at_least_3 n"
  by (simp add: at_least_3_def)

lemma make_odd_positive_down:
  "INT_MIN < n \<Longrightarrow> n \<le> INT_MAX \<Longrightarrow>
   make_odd_positive n = (if n \<le> 1 then 1 else if even n then n - 1 else n)"
  using int32_id [of "n - 1"]
  by (auto simp: make_odd_positive_def Let_def int_rem_2_even INT_MIN_def INT_MAX_def)

lemma float_to_int_range: "INT_MIN \<le> float_to_int x \<and> float_to_int x \<le> INT_MAX"
  by (simp add: float_to_int_def Let_def INT_MIN_def INT_MAX_def)

lemma forced_dimension:
  "INT_MIN \<le> k \<Longrightarrow> k \<le> INT_MAX \<Longrightarrow>
   at_least_3 (make_odd_positive k) =
     (if k = INT_MIN then INT_MAX else if k \<le> 4 then 3 else if even k then k - 1 else k)"
  using int32_id [of "k - 1"]
  by (auto simp: make_odd_positive_def at_least_3_def Let_def int_rem_2_even int32_def
                 INT_MIN_def INT_MAX_def)

lemma zero_cell_size_dimension:
  "at_least_3 (make_odd_positive (quotient_to_int a 0)) = INT_MAX"
  by (simp add: quotient_to_int_def make_odd_positive_def at_least_3_def Let_def int_rem_def
                signed_modulo_int_def int32_def INT_MIN_def INT_MAX_def)

text \<open>
  C8. Whatever the screen size of the level, \<open>CalculateMazeDimensions\<close> leaves a width and
  a height in cells that are odd and at least 3. The conjuncts on \<open>n\<close> say why the float
  part of the computation does not matter: the statements that follow the conversion to
  \<open>int\<close> turn every \<open>int\<close> value \<open>n\<close> into an odd value of at least 3, also the value that a
  cell size of \<open>0\<close> or a rounded quotient leaves. The last conjunct gives the value: a
  converted quotient above 4 goes down to the next odd number when it is even and stays
  when it is odd, one of at most 4 gives 3, and \<open>INT_MIN\<close> (the conversion of a quotient
  that does not fit, as after a division by a cell size of \<open>0\<close>) wraps to \<open>INT_MAX\<close>.
\<close>

theorem C8_dimensions_odd_at_least_3:
  "odd (mazeWidthCells (CalculateMazeDimensions m)) \<and> 3 \<le> mazeWidthCells (CalculateMazeDimensions m) \<and>
   odd (mazeHeightCells (CalculateMazeDimensions m)) \<and> 3 \<le> mazeHeightCells (CalculateMazeDimensions m) \<and>
   odd (at_least_3 (make_odd_positive n)) \<and> 3 \<le> at_least_3 (make_odd_positive n) \<and>
   at_least_3 (make_odd_positive (float_to_int x)) =
     (if float_to_int x = INT_MIN then INT_MAX
      else if float_to_int x \<le> 4 then 3
      else if even (float_to_int x) then float_to_int x - 1 else float_to_int x)"
  using at_least_3_odd make_odd_positive_odd float_to_int_range [of x]
    forced_dimension [of "float_to_int x"]
  by (simp add: CalculateMazeDimensions_def Let_def)

lemma CalculateMazeDimensions_fields:
  "startCol (CalculateMazeDimensions m) = 1 \<and> startRow (CalculateMazeDimensions m) = 1 \<and>
   endCol (CalculateMazeDimensions m) = mazeWidthCells (CalculateMazeDimensions m) - 2 \<and>
   endRow (CalculateMazeDimensions m) = mazeHeightCells (CalculateMazeDimensions m) - 2 \<and>
   mazeGrid (CalculateMazeDimensions m) = mazeGrid m \<and>
   maze_gen (CalculateMazeDimensions m) = maze_gen m"
  by (simp add: CalculateMazeDimensions_def Let_def)

lemma program_maze_dimensions:
  "mazeWidthCells (MazeLevel_new GLOBAL_SCREEN_WIDTH GLOBAL_SCREEN_HEIGHT) = 37 \<and>
   mazeHeightCells (MazeLevel_new GLOBAL_SCREEN_WIDTH GLOBAL_SCREEN_HEIGHT) = 21 \<and>
   cellSizePixels (MazeLevel_new GLOBAL_SCREEN_WIDTH GLOBAL_SCREEN_HEIGHT) = 34"
  by code_simp

subsection \<open>Maze: completion\<close>





lemma on_exit_levelWon [simp]: "on_exit (m\<lparr>levelWon := b\<rparr>) = on_exit m"
  by (simp add: on_exit_def maze_playerRect_def maze_exitRect_def)















subsection \<open>The playing state of the global machine\<close>

lemma levelSucceeded_level_won: "levelSucceeded lv = level_won lv"
  by (cases lv) (simp_all add: levelSucceeded_def level_won_def SI_DidPlayerWinThisLevel_def
      Flappy_DidPlayerWinThisLevel_def Obstacle_DidPlayerWinThisLevel_def)

text \<open>
  C1. A frame that starts in \<open>PLAYING_LEVEL\<close> with an active level whose \<open>Update\<close> returns
  and which then reports completion ends as follows. If the level was won and a level waits
  in the queue, the active level is the finished one unloaded, the name and instructions
  of the front of the queue are cached and the screen is \<open>LEVEL_TRANSITION\<close>; if it was
  won and the queue is empty, the screen is \<open>GAME_WON_GLOBAL\<close>; if it was not won, the
  screen is \<open>GAME_OVER_GLOBAL\<close>. Winning is \<open>level_won\<close>: always for the maze, the level's
  own flag for the three others. Nothing else of the session changes.
\<close>

theorem C1_playing_level_completion:
  assumes "currentGlobalScreen g = PLAYING_LEVEL"
      and "currentActiveLevel g = Some lv"
      and "Levels_Update env f lv = Inr lv1"
      and "Levels_IsComplete lv1"
  shows "main_frame env f g = Inr
     (if level_won lv1
      then (case gameLevels g of
              nxt # rest \<Rightarrow>
                g\<lparr>currentActiveLevel := Some (Levels_Unload lv1),
                  nextLevelName := Levels_GetName nxt,
                  nextLevelInstructions := Levels_GetInstructions nxt,
                  currentGlobalScreen := LEVEL_TRANSITION\<rparr>
            | [] \<Rightarrow> g\<lparr>currentActiveLevel := None, currentGlobalScreen := GAME_WON_GLOBAL\<rparr>)
      else g\<lparr>currentActiveLevel := None, currentGlobalScreen := GAME_OVER_GLOBAL\<rparr>)"
  using assms
  by (simp add: main_frame_def update_switch_def playing_level_def draw_phase_def
      levelSucceeded_level_won Let_def split: list.splits)

lemma invaders_cleared_Update:
  "Levels_Update sample_env quiet_frame invaders_cleared = Inr invaders_cleared"
  by (simp add: invaders_cleared_def SpaceInvadersLevel_Update_def)

lemma invaders_cleared_complete: "Levels_IsComplete invaders_cleared"
  by (simp add: invaders_cleared_def SpaceInvadersLevel_IsComplete_def)

theorem C1_witness:
  "currentGlobalScreen game_after_invaders = PLAYING_LEVEL \<and>
   currentActiveLevel game_after_invaders = Some invaders_cleared \<and>
   Levels_Update sample_env quiet_frame invaders_cleared = Inr invaders_cleared \<and>
   Levels_IsComplete invaders_cleared \<and>
   main_frame sample_env quiet_frame game_after_invaders =
     Inr (game_after_invaders
            \<lparr>currentActiveLevel := Some (Levels_Unload invaders_cleared),
             nextLevelName := ''Flappy Level'',
             nextLevelInstructions :=
               Levels_GetInstructions (Flappy (FlappyLevel_new GLOBAL_SCREEN_WIDTH GLOBAL_SCREEN_HEIGHT)),
             currentGlobalScreen := LEVEL_TRANSITION\<rparr>)"
proof -
  have a: "currentGlobalScreen game_after_invaders = PLAYING_LEVEL"
    by (simp add: game_after_invaders_def)
  have b: "currentActiveLevel game_after_invaders = Some invaders_cleared"
    by (simp add: game_after_invaders_def)
  have w: "level_won invaders_cleared"
    by (simp add: level_won_def invaders_cleared_def)
  have q: "gameLevels game_after_invaders =
             [Flappy (FlappyLevel_new GLOBAL_SCREEN_WIDTH GLOBAL_SCREEN_HEIGHT),
              Obstacle (ObstacleLevel_new GLOBAL_SCREEN_WIDTH GLOBAL_SCREEN_HEIGHT)]"
    by (simp add: game_after_invaders_def)
  from C1_playing_level_completion [OF a b invaders_cleared_Update invaders_cleared_complete]
  show ?thesis
    using a b invaders_cleared_Update invaders_cleared_complete w q by simp
qed

text \<open>
  C9. A frame that starts in \<open>PLAYING_LEVEL\<close> with no active level ends on the
  \<open>GAME_OVER_GLOBAL\<close> screen, with nothing else of the session changed.
\<close>

theorem C9_playing_without_level:
  assumes "currentGlobalScreen g = PLAYING_LEVEL"
      and "currentActiveLevel g = None"
  shows "main_frame env f g = Inr (g\<lparr>currentGlobalScreen := GAME_OVER_GLOBAL\<rparr>)"
  using assms
  by (simp add: main_frame_def update_switch_def playing_level_def draw_phase_def)

theorem C9_witness:
  "currentGlobalScreen game_without_level = PLAYING_LEVEL \<and>
   currentActiveLevel game_without_level = None \<and>
   main_frame sample_env quiet_frame game_without_level =
     Inr (game_without_level\<lparr>currentGlobalScreen := GAME_OVER_GLOBAL\<rparr>)"
proof -
  have a: "currentGlobalScreen game_without_level = PLAYING_LEVEL"
    by (simp add: game_without_level_def)
  have b: "currentActiveLevel game_without_level = None"
    by (simp add: game_without_level_def initial_Game_def)
  from C9_playing_without_level [OF a b] show ?thesis
    using a b by simp
qed


subsection \<open>Obstacle course: landing and bumping\<close>

lemma resolve_obstacle_at_rest:
  "vx (velocity p) = 0 \<Longrightarrow> vy (velocity p) = 0 \<Longrightarrow> resolve_obstacle dt obs p = p"
  by (simp add: resolve_obstacle_def lands_on_def bumps_head_def hits_left_side_def
      hits_right_side_def)

lemma resolve_obstacles_at_rest:
  "vx (velocity p) = 0 \<Longrightarrow> vy (velocity p) = 0 \<Longrightarrow> resolve_obstacles dt obstacles p = p"
  by (induction obstacles) (simp_all add: resolve_obstacle_at_rest)

lemma resolve_obstacle_falling:
  assumes "vx (velocity p) = 0" and "vy (velocity p) > 0"
  shows "resolve_obstacle dt obs p =
           (if CheckCollisionRecs (bounds p) (bounds obs) \<and> lands_on dt p obs
            then (SetPosition (Vec (vx (position p)) (ry (bounds obs) - rheight (bounds p))) p)
                   \<lparr>velocity := Vec 0 0, onGround := True, jumped := False\<rparr>
            else p)"
  using assms
  by (simp add: resolve_obstacle_def bumps_head_def hits_left_side_def hits_right_side_def Vec_def)

text \<open>
  The first half of C7 holds: a player that falls straight down (no horizontal velocity)
  onto a platform, by the source's own test of "from above", ends the loop over the
  obstacles grounded and with no vertical velocity, whatever the other obstacles are.
\<close>

lemma landing_ends_grounded:
  assumes "vx (velocity p) = 0" and "vy (velocity p) > 0"
      and "obs \<in> set obstacles"
      and "CheckCollisionRecs (bounds p) (bounds obs)" and "lands_on dt p obs"
  shows "onGround (resolve_obstacles dt obstacles p) \<and>
         vy (velocity (resolve_obstacles dt obstacles p)) = 0"
  using assms
proof (induction obstacles)
  case Nil
  then show ?case by simp
next
  case (Cons ob rest)
  show ?case
  proof (cases "CheckCollisionRecs (bounds p) (bounds ob) \<and> lands_on dt p ob")
    case True
    let ?p' = "(SetPosition (Vec (vx (position p)) (ry (bounds ob) - rheight (bounds p))) p)
                   \<lparr>velocity := Vec 0 0, onGround := True, jumped := False\<rparr>"
    have "resolve_obstacle dt ob p = ?p'"
      using True Cons.prems(1,2) by (simp add: resolve_obstacle_falling)
    moreover have "resolve_obstacles dt rest ?p' = ?p'"
      by (rule resolve_obstacles_at_rest) (simp_all add: Vec_def SetPosition_def)
    ultimately show ?thesis by (simp add: Vec_def)
  next
    case False
    then have same: "resolve_obstacle dt ob p = p"
      using Cons.prems(1,2) by (auto simp add: resolve_obstacle_falling)
    from False Cons.prems(4,5) have "obs \<noteq> ob" by auto
    with Cons.prems(3) have "obs \<in> set rest" by simp
    from Cons.IH [OF Cons.prems(1,2) this Cons.prems(4,5)] same show ?thesis by simp
  qed
qed

lemma landing_frame:
  assumes "o_currentScreen s = OBSTACLE_GAMEPLAY"
      and "vx (velocity (OPlayer_Update f (m_player s))) = 0"
      and "vy (velocity (OPlayer_Update f (m_player s))) > 0"
      and "obs \<in> set (m_obstacles s)"
      and "CheckCollisionRecs (bounds (OPlayer_Update f (m_player s))) (bounds obs)"
      and "lands_on (deltaTime f) (OPlayer_Update f (m_player s)) obs"
  shows "onGround (m_player (ObstacleLevel_Update f s)) \<and>
         vy (velocity (m_player (ObstacleLevel_Update f s))) = 0"
proof -
  let ?p1 = "(OPlayer_Update f (m_player s))\<lparr>onGround := False\<rparr>"
  have "onGround (resolve_obstacles (deltaTime f) (m_obstacles s) ?p1) \<and>
        vy (velocity (resolve_obstacles (deltaTime f) (m_obstacles s) ?p1)) = 0"
    using assms(2-6) by (intro landing_ends_grounded [where obs = obs]) (simp_all add: lands_on_def)
  then show ?thesis
    using assms(1)
    by (simp add: ObstacleLevel_Update_def obstacle_gameplay_def Let_def split: prod.splits)
qed

text \<open>
  The second half fails. The test of "from below" compares \<open>bounds.y - bounds.y * dt\<close>
  (the player's top scaled, where its previous top \<open>bounds.y - velocity.y * dt\<close> is meant)
  with the underside of the obstacle. A player that overlaps an obstacle lying at least a
  player's height below the top of the screen never passes it, whatever the frame time.
\<close>

lemma bumps_head_never:
  assumes "0 \<le> dt" and "rheight (bounds p) \<le> ry (bounds obs)"
      and "CheckCollisionRecs (bounds p) (bounds obs)"
  shows "\<not> bumps_head dt p obs"
proof
  assume b: "bumps_head dt p obs"
  from assms(2,3) have pos: "0 < ry (bounds p)"
    and below: "ry (bounds p) < ry (bounds obs) + rheight (bounds obs)"
    by (simp_all add: CheckCollisionRecs_def)
  from pos assms(1) have "0 \<le> ry (bounds p) * dt" by simp
  with b below show False by (simp add: bumps_head_def)
qed

text \<open>
  C7, at a failing input. On the course as the program loads it, with frames of a 16th of
  a second: the player settles on the ground, steps right to \<open>x = 112.5\<close>, which is under
  the first platform (\<open>150 \<le> x < 250\<close>, underside at \<open>y = 590\<close>), and jumps. After the
  third frame its top is at \<open>605\<close>, below the underside. The fourth frame moves it
  straight up to \<open>583.125\<close>, into the platform. The frame ends with the player inside the
  platform and still rising at \<open>350\<close> pixels a second: the vertical velocity is not \<open>0\<close>
  and the player is not put back under the platform.
\<close>

theorem C7_head_bump_not_resolved:
  "bounds (m_obstacles course_loaded ! 1) = Rect 150 570 100 20 \<and>
   ry (bounds (m_player (obstacle_frames course_loaded (take 3 head_bump_frames)))) = 605 \<and>
   bounds (m_player (obstacle_frames course_loaded head_bump_frames)) = Rect (225 / 2) (4665 / 8) 40 40 \<and>
   CheckCollisionRecs (bounds (m_player (obstacle_frames course_loaded head_bump_frames)))
     (bounds (m_obstacles course_loaded ! 1)) \<and>
   velocity (m_player (obstacle_frames course_loaded head_bump_frames)) = Vec 0 (- 350) \<and>
   \<not> onGround (m_player (obstacle_frames course_loaded head_bump_frames))"
  by code_simp

subsection \<open>Flappy: the pipe list\<close>

lemma pipe_x_body: "pipe_x (fst (pipe_body dt b p)) = pipe_x p - FLAPPY_PIPE_SPEED * dt"
  by (simp add: pipe_body_def pipe_x_def Pipe_Update_def markScored_def Let_def)

lemma pipes_loop_map:
  "fst (pipes_loop dt b ps sc coll) = map (\<lambda>p. fst (pipe_body dt b p)) ps"
  by (induction ps arbitrary: sc coll) (simp_all add: split_beta Let_def)

lemma pipes_loop_score:
  "fst (snd (pipes_loop dt b ps sc coll)) =
     sc + int (length (filter (\<lambda>p. \<not> m_scored p \<and> pipe_passed b (Pipe_Update dt p)) ps))"
proof (induction ps arbitrary: sc coll)
  case Nil
  then show ?case by simp
next
  case (Cons p ps)
  have "snd (snd (pipe_body dt b p)) = (\<not> m_scored p \<and> pipe_passed b (Pipe_Update dt p))"
    by (simp add: pipe_body_def Let_def Pipe_Update_def)
  then show ?case
    using Cons.IH by (simp add: split_beta Let_def)
qed

lemma spaced_shift: "spaced (map (\<lambda>x. x - d) xs) = spaced xs"
  by (induction xs rule: spaced.induct) simp_all

lemma spaced_snoc:
  "spaced xs \<Longrightarrow> xs \<noteq> [] \<Longrightarrow> spaced (xs @ [last xs + FLAPPY_MIN_HORIZONTAL_PIPE_SPACING])"
  by (induction xs rule: spaced.induct) simp_all

lemma pipes_loop_inv:
  assumes "pipes_loop dt b ps sc coll = (ps', sc', coll')"
  shows "length ps' = length ps \<and> spaced (map pipe_x ps') = spaced (map pipe_x ps)"
proof -
  have ps': "ps' = map (\<lambda>p. fst (pipe_body dt b p)) ps"
    using pipes_loop_map [of dt b ps sc coll] assms by simp
  then have "map pipe_x ps' = map (\<lambda>x. x - FLAPPY_PIPE_SPEED * dt) (map pipe_x ps)"
    by (simp add: pipe_x_body comp_def)
  then have "spaced (map pipe_x ps') = spaced (map pipe_x ps)"
    by (simp only: spaced_shift)
  then show ?thesis
    using ps' by simp
qed

lemma two_fresh_pipes_facts:
  "length (m_pipes (two_fresh_pipes rnd s)) = 2"
  "spaced (map pipe_x (m_pipes (two_fresh_pipes rnd s)))"
  "pipe_x (hd (m_pipes (two_fresh_pipes rnd s))) = real_of_int (f_screenWidth s)"
  "pipe_x (last (m_pipes (two_fresh_pipes rnd s))) = real_of_int (f_screenWidth s) + 250"
  "m_bird (two_fresh_pipes rnd s) = m_bird s"
  "f_screenWidth (two_fresh_pipes rnd s) = f_screenWidth s"
  "f_levelFinished (two_fresh_pipes rnd s) = f_levelFinished s"
  "f_playerWonLevel (two_fresh_pipes rnd s) = f_playerWonLevel s"
  "f_currentScreen (two_fresh_pipes rnd s) = f_currentScreen s"
  "m_score (two_fresh_pipes rnd s) = m_score s"
  "\<forall>q \<in> set (m_pipes (two_fresh_pipes rnd s)). \<not> m_scored q"
  by (simp_all add: two_fresh_pipes_def pipe_x_def Pipe_new_def Rect_def
      FLAPPY_MIN_HORIZONTAL_PIPE_SPACING_def)

lemma tail_keeps_inv:
  assumes "420 \<le> f_screenWidth s" and "2 \<le> length (m_pipes s)"
      and "spaced (map pipe_x (m_pipes s))" and "m_bird s \<noteq> None"
      and "f_levelFinished s \<longrightarrow>
             f_currentScreen s = FLAPPY_GAME_OVER \<or> f_currentScreen s = FLAPPY_WIN"
  shows "\<exists>s'. generate_if_needed rnd (remove_offscreen s) = Inr s' \<and> flappy_inv s' \<and>
              f_currentScreen s' = f_currentScreen s \<and> f_levelFinished s' = f_levelFinished s \<and>
              f_playerWonLevel s' = f_playerWonLevel s \<and> m_bird s' = m_bird s \<and>
              m_score s' = m_score s"
proof (cases "rx (m_topRect (hd (m_pipes s))) + real_of_int FLAPPY_PIPE_WIDTH < 0")
  case False
  then have r: "remove_offscreen s = s" by (simp add: remove_offscreen_def)
  from assms(2) have ne: "m_pipes s \<noteq> []" by auto
  show ?thesis
    using assms ne spaced_snoc [of "map pipe_x (m_pipes s)"]
    by (auto simp: r generate_if_needed_def GenerateNewPipe_def flappy_inv_def Let_def
        pipe_x_def Pipe_new_def Rect_def last_map)
next
  case True
  from assms(2) obtain p q ps where ps: "m_pipes s = p # q # ps"
    by (cases "m_pipes s"; cases "tl (m_pipes s)") auto
  with True have r: "remove_offscreen s = s\<lparr>m_pipes := q # ps\<rparr>"
    by (simp add: remove_offscreen_def)
  from assms(3) ps have sp: "spaced (map pipe_x (q # ps))" and qx: "pipe_x q = pipe_x p + 250"
    by (auto simp add: FLAPPY_MIN_HORIZONTAL_PIPE_SPACING_def)
  show ?thesis
  proof (cases ps)
    case Nil
    from True ps qx have "pipe_x q < 170"
      by (simp add: pipe_x_def FLAPPY_PIPE_WIDTH_def)
    moreover from assms(1) have "(170::real) \<le> real_of_int (f_screenWidth s) - 250" by simp
    ultimately have "rx (m_topRect q)
        < real_of_int (f_screenWidth s) - FLAPPY_MIN_HORIZONTAL_PIPE_SPACING"
      by (simp add: pipe_x_def FLAPPY_MIN_HORIZONTAL_PIPE_SPACING_def)
    then show ?thesis
      using assms(1,4,5) Nil
      by (simp add: r generate_if_needed_def GenerateNewPipe_def flappy_inv_def Let_def
          pipe_x_def Pipe_new_def Rect_def)
  next
    case (Cons q' ps')
    show ?thesis
      using assms(1,4,5) sp Cons spaced_snoc [of "map pipe_x (q # ps)"]
      by (auto simp: r generate_if_needed_def GenerateNewPipe_def flappy_inv_def Let_def
          pipe_x_def Pipe_new_def Rect_def last_map)
  qed
qed

lemma handle_collision_inv:
  assumes "420 \<le> f_screenWidth s" and "2 \<le> length (m_pipes s)"
      and "spaced (map pipe_x (m_pipes s))"
      and "f_levelFinished s \<longrightarrow>
             f_currentScreen s = FLAPPY_GAME_OVER \<or> f_currentScreen s = FLAPPY_WIN"
  shows "420 \<le> f_screenWidth (handle_collision rnd b s) \<and>
         2 \<le> length (m_pipes (handle_collision rnd b s)) \<and>
         spaced (map pipe_x (m_pipes (handle_collision rnd b s))) \<and>
         m_bird (handle_collision rnd b s) \<noteq> None \<and>
         (f_levelFinished (handle_collision rnd b s) \<longrightarrow>
            f_currentScreen (handle_collision rnd b s) = FLAPPY_GAME_OVER \<or>
            f_currentScreen (handle_collision rnd b s) = FLAPPY_WIN)"
  using assms
  by (simp add: handle_collision_def Let_def two_fresh_pipes_facts)

lemma check_win_inv: "flappy_inv s \<Longrightarrow> flappy_inv (check_win s)"
  by (simp add: flappy_inv_def check_win_def)

lemma jump_on_space_inv: "flappy_inv s \<Longrightarrow> \<exists>s'. jump_on_space f s = Inr s' \<and> flappy_inv s'"
  by (auto simp: flappy_inv_def jump_on_space_def)

lemma flappy_playing_inv:
  assumes "flappy_inv s"
  shows "\<exists>s'. flappy_playing rnd f s = Inr s' \<and> flappy_inv s'"
proof -
  from assms obtain b0 where b0: "m_bird s = Some b0" by (auto simp: flappy_inv_def)
  let ?b = "Bird_Update (deltaTime f) b0"
  obtain ps sc coll
    where loop: "pipes_loop (deltaTime f) ?b (m_pipes s) (m_score s) False = (ps, sc, coll)"
    by (cases "pipes_loop (deltaTime f) ?b (m_pipes s) (m_score s) False") auto
  let ?s1 = "s\<lparr>m_bird := Some ?b, m_pipes := ps, m_score := sc\<rparr>"
  let ?s2 = "if (if touches_screen_edge ?s1 ?b then True else coll)
             then handle_collision rnd ?b ?s1 else ?s1"
  from pipes_loop_inv [OF loop] assms
  have s1: "420 \<le> f_screenWidth ?s1" "2 \<le> length (m_pipes ?s1)"
    "spaced (map pipe_x (m_pipes ?s1))"
    "f_levelFinished ?s1 \<longrightarrow>
       f_currentScreen ?s1 = FLAPPY_GAME_OVER \<or> f_currentScreen ?s1 = FLAPPY_WIN"
    by (simp_all add: flappy_inv_def)
  have s2: "420 \<le> f_screenWidth ?s2 \<and> 2 \<le> length (m_pipes ?s2) \<and>
            spaced (map pipe_x (m_pipes ?s2)) \<and> m_bird ?s2 \<noteq> None \<and>
            (f_levelFinished ?s2 \<longrightarrow>
               f_currentScreen ?s2 = FLAPPY_GAME_OVER \<or> f_currentScreen ?s2 = FLAPPY_WIN)"
    using handle_collision_inv [OF s1, of rnd ?b] s1 by simp
  then obtain s3 where s3: "generate_if_needed rnd (remove_offscreen ?s2) = Inr s3" "flappy_inv s3"
    using tail_keeps_inv [of ?s2 rnd] by blast
  from jump_on_space_inv [OF check_win_inv [OF s3(2)], of f]
  obtain s4 where "jump_on_space f (check_win s3) = Inr s4" "flappy_inv s4" by blast
  then show ?thesis
    using b0 loop s3(1) by (simp add: flappy_playing_def Let_def)
qed

lemma FlappyLevel_Update_inv:
  assumes "flappy_inv s"
  shows "\<exists>s'. FlappyLevel_Update rnd f s = Inr s' \<and> flappy_inv s'"
  using assms flappy_playing_inv [OF assms, of rnd f]
  by (cases "f_currentScreen s") (auto simp: FlappyLevel_Update_def flappy_inv_def)

lemma flappy_frames_inv:
  "flappy_inv s \<Longrightarrow> \<exists>s'. flappy_frames rnd s fs = Inr s' \<and> flappy_inv s'"
proof (induction fs arbitrary: s)
  case Nil
  then show ?case by simp
next
  case (Cons f fs)
  from FlappyLevel_Update_inv [OF Cons.prems, of rnd f]
  obtain s1 where s1: "FlappyLevel_Update rnd f s = Inr s1" "flappy_inv s1" by blast
  from Cons.IH [OF s1(2)] s1(1) show ?case by simp
qed

lemma FlappyLevel_Load_inv:
  "420 \<le> f_screenWidth s \<Longrightarrow> flappy_inv (FlappyLevel_Load rnd s)"
  by (simp add: FlappyLevel_Load_def InitFlappyGame_def flappy_inv_def two_fresh_pipes_facts)

lemma flappy_session_inv:
  "\<exists>s. flappy_session rnd fs = Inr s \<and> flappy_inv s"
proof -
  have "flappy_inv (FlappyLevel_Load rnd (FlappyLevel_new GLOBAL_SCREEN_WIDTH GLOBAL_SCREEN_HEIGHT))"
    by (rule FlappyLevel_Load_inv) (simp add: FlappyLevel_new_def GLOBAL_SCREEN_WIDTH_def)
  from flappy_frames_inv [OF this, of rnd fs] show ?thesis by (simp add: flappy_session_def)
qed

text \<open>
  C10. The flappy level that the program constructs (1280 pixels wide), loaded and played
  for any frames with any draws of its engine, never fails: in particular no frame
  evaluates \<open>m_pipes.back()\<close> on an empty vector, the only way \<open>generate_if_needed\<close>
  fails. After every frame the vector holds at least two pipes: \<open>Load\<close> and the retry
  leave two; the loop removes none; only the front is erased, and then the next pipe is
  less than 170 pixels from the left edge, so that a new pipe is pushed in the same frame.
\<close>

theorem C10_back_of_nonempty_pipes:
  "\<exists>s. flappy_session rnd fs = Inr s \<and> 2 \<le> length (m_pipes s)"
  using flappy_session_inv [of rnd fs] by (auto simp: flappy_inv_def)

subsection \<open>Flappy: a collision\<close>

lemma takeDamage_health_nonneg: "0 \<le> m_health (takeDamage amount b)"
  by (simp add: takeDamage_def Let_def)

text \<open>
  A collision in a frame that does not bring the score to the win score. Take a frame of a
  session in the playing sub-state in which a collision occurred (a pipe hit the bird in
  the loop, or the bird touches the top or bottom of the screen), and let the score after
  the loop of that frame be below the win score. If the health after the damage is \<open>0\<close>,
  the frame ends in \<open>FLAPPY_GAME_OVER\<close> with the level complete and not won. Otherwise the
  frame ends in \<open>FLAPPY_PLAYING\<close> with the level not complete, the bird at its start
  position, its vertical velocity \<open>0\<close> (or the jump velocity when SPACE was pressed in that
  frame), and \<open>m_pipes\<close> holding exactly the two fresh pipes.
\<close>

lemma flappy_collision_outcome:
  assumes run: "flappy_session rnd fs = Inr s"
      and playing: "f_currentScreen s = FLAPPY_PLAYING"
      and bird: "m_bird s = Some b0"
      and loop: "pipes_loop (deltaTime f) (Bird_Update (deltaTime f) b0) (m_pipes s) (m_score s) False
                   = (ps, sc, coll)"
      and hit: "coll \<or> touches_screen_edge s (Bird_Update (deltaTime f) b0)"
      and below: "sc < FLAPPY_WIN_SCORE"
  shows "\<exists>s'. FlappyLevel_Update rnd f s = Inr s' \<and>
     (if m_health (takeDamage FLAPPY_DAMAGE_PER_HIT (Bird_Update (deltaTime f) b0)) = 0
      then f_currentScreen s' = FLAPPY_GAME_OVER \<and> FlappyLevel_IsComplete s' \<and>
           \<not> Flappy_DidPlayerWinThisLevel s'
      else f_currentScreen s' = FLAPPY_PLAYING \<and> \<not> FlappyLevel_IsComplete s' \<and>
           map_option m_position (m_bird s') = Some (bird_start s) \<and>
           map_option m_velocityY (m_bird s') =
             Some (if keySpacePressed f then FLAPPY_BIRD_JUMP_STRENGTH else 0) \<and>
           m_pipes s' = m_pipes (two_fresh_pipes rnd s))"
proof -
  let ?b = "Bird_Update (deltaTime f) b0"
  let ?b1 = "takeDamage FLAPPY_DAMAGE_PER_HIT ?b"
  let ?s1 = "s\<lparr>m_bird := Some ?b, m_pipes := ps, m_score := sc\<rparr>"
  from flappy_session_inv [of rnd fs] run have inv: "flappy_inv s" by simp
  from pipes_loop_inv [OF loop] inv playing
  have s1: "420 \<le> f_screenWidth ?s1" "2 \<le> length (m_pipes ?s1)"
    "spaced (map pipe_x (m_pipes ?s1))"
    "f_levelFinished ?s1 \<longrightarrow>
       f_currentScreen ?s1 = FLAPPY_GAME_OVER \<or> f_currentScreen ?s1 = FLAPPY_WIN"
    by (simp_all add: flappy_inv_def)
  from inv playing have notfin: "\<not> f_levelFinished s" by (auto simp: flappy_inv_def)
  have edge: "touches_screen_edge ?s1 ?b = touches_screen_edge s ?b"
    by (simp add: touches_screen_edge_def)
  let ?s2 = "handle_collision rnd ?b ?s1"
  have pl: "flappy_playing rnd f s =
              (case generate_if_needed rnd (remove_offscreen ?s2) of
                 Inl e \<Rightarrow> Inl e | Inr s3 \<Rightarrow> jump_on_space f (check_win s3))"
    using bird loop hit edge by (auto simp: flappy_playing_def Let_def)
  from handle_collision_inv [OF s1, of rnd ?b]
  obtain s3 where s3: "generate_if_needed rnd (remove_offscreen ?s2) = Inr s3"
      "flappy_inv s3" "f_currentScreen s3 = f_currentScreen ?s2"
      "f_levelFinished s3 = f_levelFinished ?s2" "f_playerWonLevel s3 = f_playerWonLevel ?s2"
      "m_bird s3 = m_bird ?s2" "m_score s3 = m_score ?s2"
    using tail_keeps_inv [of ?s2 rnd] by blast
  have sc2: "m_score ?s2 = sc"
    by (simp add: handle_collision_def Let_def two_fresh_pipes_facts)
  with s3(7) below have cw: "check_win s3 = s3" by (simp add: check_win_def)
  from s3(2) obtain b3 where b3: "m_bird s3 = Some b3" by (auto simp: flappy_inv_def)
  let ?s4 = "if keySpacePressed f then s3\<lparr>m_bird := Some (Jump b3)\<rparr> else s3"
  have upd: "FlappyLevel_Update rnd f s = Inr ?s4"
    using playing pl s3(1) cw b3 by (simp add: FlappyLevel_Update_def jump_on_space_def)
  show ?thesis
  proof (cases "m_health ?b1 = 0")
    case True
    then have "f_currentScreen ?s2 = FLAPPY_GAME_OVER \<and> f_levelFinished ?s2 \<and>
               \<not> f_playerWonLevel ?s2"
      by (simp add: handle_collision_def Let_def)
    with s3 True upd show ?thesis
      by (simp add: FlappyLevel_IsComplete_def Flappy_DidPlayerWinThisLevel_def)
  next
    case False
    with takeDamage_health_nonneg [of FLAPPY_DAMAGE_PER_HIT ?b] have pos: "\<not> m_health ?b1 \<le> 0"
      by simp
    let ?r = "?s1\<lparr>m_bird := Some (?b1\<lparr>m_position := bird_start ?s1, m_velocityY := 0\<rparr>),
                  m_pipes := []\<rparr>"
    from pos have h2: "?s2 = two_fresh_pipes rnd ?r"
      by (simp add: handle_collision_def Let_def)
    have fresh: "m_pipes ?s2 = m_pipes (two_fresh_pipes rnd s)"
      unfolding h2 by (simp add: two_fresh_pipes_def)
    have keep: "remove_offscreen ?s2 = ?s2"
      using s1(1) two_fresh_pipes_facts(3) [of rnd ?r]
      unfolding h2 by (simp add: remove_offscreen_def pipe_x_def FLAPPY_PIPE_WIDTH_def)
    have nogen: "generate_if_needed rnd ?s2 = Inr ?s2"
      using two_fresh_pipes_facts(1,4,6) [of rnd ?r]
      unfolding h2
      by (auto simp add: generate_if_needed_def pipe_x_def FLAPPY_MIN_HORIZONTAL_PIPE_SPACING_def)
    from s3(1) keep nogen have s3eq: "s3 = ?s2" by simp
    have b3eq: "b3 = ?b1\<lparr>m_position := bird_start s, m_velocityY := 0\<rparr>"
      using b3 unfolding s3eq h2 by (simp add: two_fresh_pipes_facts bird_start_def)
    have flags: "f_currentScreen ?s2 = FLAPPY_PLAYING" "\<not> f_levelFinished ?s2"
      unfolding h2 using playing notfin by (simp_all add: two_fresh_pipes_facts)
    show ?thesis
      using False upd flags fresh b3 b3eq s3eq
      by (simp add: FlappyLevel_IsComplete_def Jump_def)
  qed
qed

lemma first_playing_run: "flappy_session gap_360 [press_space] = Inr first_playing"
  by code_simp

lemma first_playing_screen: "f_currentScreen first_playing = FLAPPY_PLAYING"
  by code_simp

lemma first_playing_bird:
  "m_bird first_playing = Some (Bird_new GLOBAL_SCREEN_WIDTH GLOBAL_SCREEN_HEIGHT)"
  by code_simp

lemma first_playing_hit:
  "snd (snd (pipes_loop (deltaTime (stall 10))
       (Bird_Update (deltaTime (stall 10)) (Bird_new GLOBAL_SCREEN_WIDTH GLOBAL_SCREEN_HEIGHT))
       (m_pipes first_playing) (m_score first_playing) False))"
  by code_simp

lemma first_playing_score:
  "fst (snd (pipes_loop (deltaTime (stall 10))
       (Bird_Update (deltaTime (stall 10)) (Bird_new GLOBAL_SCREEN_WIDTH GLOBAL_SCREEN_HEIGHT))
       (m_pipes first_playing) (m_score first_playing) False)) < FLAPPY_WIN_SCORE"
  by code_simp

lemma first_playing_health:
  "m_health (takeDamage FLAPPY_DAMAGE_PER_HIT
      (Bird_Update (deltaTime (stall 10)) (Bird_new GLOBAL_SCREEN_WIDTH GLOBAL_SCREEN_HEIGHT))) = 75"
  by code_simp

lemma flappy_collision_outcome_example:
  "flappy_session gap_360 [press_space] = Inr first_playing \<and>
   f_currentScreen first_playing = FLAPPY_PLAYING \<and>
   m_health (takeDamage FLAPPY_DAMAGE_PER_HIT
      (Bird_Update (deltaTime (stall 10)) (Bird_new GLOBAL_SCREEN_WIDTH GLOBAL_SCREEN_HEIGHT))) = 75 \<and>
   f_currentScreen (projr (FlappyLevel_Update gap_360 (stall 10) first_playing)) = FLAPPY_PLAYING \<and>
   \<not> FlappyLevel_IsComplete (projr (FlappyLevel_Update gap_360 (stall 10) first_playing)) \<and>
   m_pipes (projr (FlappyLevel_Update gap_360 (stall 10) first_playing))
     = m_pipes (two_fresh_pipes gap_360 first_playing)"
proof -
  let ?b = "Bird_Update (deltaTime (stall 10)) (Bird_new GLOBAL_SCREEN_WIDTH GLOBAL_SCREEN_HEIGHT)"
  let ?X = "pipes_loop (deltaTime (stall 10)) ?b (m_pipes first_playing) (m_score first_playing) False"
  have loop: "?X = (fst ?X, fst (snd ?X), snd (snd ?X))" by simp
  have hit: "snd (snd ?X) \<or> touches_screen_edge first_playing ?b"
    using first_playing_hit by simp
  from flappy_collision_outcome [OF first_playing_run first_playing_screen first_playing_bird
      loop hit first_playing_score]
  show ?thesis
    using first_playing_run first_playing_screen first_playing_health by auto
qed

lemma loss_written_then_overwritten:
  "flappy_summary after_last_hit = (FLAPPY_GAME_OVER, 10, Some 0, True, False) \<and>
   map_sum id flappy_summary (generate_if_needed gap_360 (remove_offscreen after_last_hit))
     = Inr (FLAPPY_GAME_OVER, 10, Some 0, True, False) \<and>
   flappy_summary (check_win after_last_hit) = (FLAPPY_WIN, 10, Some 0, True, True)"
  by code_simp

text \<open>
  C6. The first half of the statement fails on the code when the frame of the last hit
  also brings the score to the win score. In the session \<open>lag_frames\<close> the bird has taken
  three hits (health 25) and nine pipes have passed (score 9). A frame that took four
  seconds then carries the tenth pipe past the bird and the eleventh onto it. The damage
  leaves the health at exactly \<open>0\<close>; the code writes \<open>FLAPPY_GAME_OVER\<close> and the loss
  (lemma \<open>loss_written_then_overwritten\<close>), and the win check at the end of the same
  \<open>Update\<close>, which does not look at the sub-state, overwrites both: the frame ends in
  \<open>FLAPPY_WIN\<close> with the level complete and won, at health \<open>0\<close>.
\<close>

theorem C6_loss_overridden_by_win:
  "map_sum id flappy_summary (flappy_session gap_360 lag_frames)
     = Inr (FLAPPY_PLAYING, 9, Some 25, False, False) \<and>
   map_sum id flappy_summary (flappy_session gap_360 (lag_frames @ [stall 4]))
     = Inr (FLAPPY_WIN, 10, Some 0, True, True)"
  by code_simp

subsection \<open>Flappy: scoring a pipe\<close>

lemma pipe_body_scored:
  "snd (snd (pipe_body dt b p)) = (\<not> m_scored p \<and> pipe_passed b (Pipe_Update dt p))"
  by (simp add: pipe_body_def Let_def Pipe_Update_def)

lemma pipe_body_flag:
  "m_scored (fst (pipe_body dt b p)) = (m_scored p \<or> pipe_passed b (Pipe_Update dt p))"
  by (auto simp add: pipe_body_def Let_def Pipe_Update_def markScored_def)

lemma passed_in_0: "passed_in p ((dt, b) # rest) 0 = pipe_passed b (Pipe_Update dt p)"
  by (simp add: passed_in_def)

lemma passed_in_Suc:
  "passed_in p ((dt, b) # rest) (Suc k) = passed_in (fst (pipe_body dt b p)) rest k"
  by (simp add: passed_in_def)

lemma scored_in_0:
  "scored_in p ((dt, b) # rest) 0 = (\<not> m_scored p \<and> pipe_passed b (Pipe_Update dt p))"
  by (simp add: scored_in_def pipe_body_scored)

lemma scored_in_Suc:
  "scored_in p ((dt, b) # rest) (Suc k) = scored_in (fst (pipe_body dt b p)) rest k"
  by (simp add: scored_in_def)

lemma ex_less_Cons:
  "(\<exists>k<Suc n. P k) = (P 0 \<or> (\<exists>k<n. P (Suc k)))"
  by (metis less_Suc_eq_0_disj)

lemma all_less_Cons:
  "(\<forall>j<Suc n. P j) = (P 0 \<and> (\<forall>j<n. P (Suc j)))"
  by (metis less_Suc_eq_0_disj)

lemma pipe_after_flag:
  "m_scored (pipe_after p hist) = (m_scored p \<or> (\<exists>k<length hist. passed_in p hist k))"
proof (induction hist arbitrary: p)
  case Nil
  then show ?case by simp
next
  case (Cons x hist)
  obtain dt b where x: "x = (dt, b)" by (cases x)
  show ?case
    unfolding x
    by (simp add: Cons.IH pipe_body_flag ex_less_Cons passed_in_0 passed_in_Suc)
qed

lemma pipe_increments_eq:
  "pipe_increments p hist =
     (if \<not> m_scored p \<and> (\<exists>k<length hist. passed_in p hist k) then 1 else 0)"
proof (induction hist arbitrary: p)
  case Nil
  then show ?case by simp
next
  case (Cons x hist)
  obtain dt b where x: "x = (dt, b)" by (cases x)
  show ?case
    unfolding x
    by (auto simp add: Cons.IH pipe_body_flag pipe_body_scored ex_less_Cons passed_in_0
        passed_in_Suc)
qed

lemma scored_in_first:
  "k < length hist \<Longrightarrow>
   scored_in p hist k = (\<not> m_scored p \<and> passed_in p hist k \<and> (\<forall>j<k. \<not> passed_in p hist j))"
proof (induction hist arbitrary: p k)
  case Nil
  then show ?case by simp
next
  case (Cons x hist)
  obtain dt b where x: "x = (dt, b)" by (cases x)
  show ?case
  proof (cases k)
    case 0
    then show ?thesis unfolding x by (simp add: scored_in_0 passed_in_0)
  next
    case (Suc k')
    with Cons.prems have "k' < length hist" by simp
    from Cons.IH [OF this, of "fst (pipe_body dt b p)"] show ?thesis
      unfolding x Suc
      by (auto simp add: scored_in_Suc passed_in_Suc passed_in_0 all_less_Cons pipe_body_flag)
  qed
qed

lemma FlappyLevel_Update_pipes:
  assumes playing: "f_currentScreen s = FLAPPY_PLAYING"
      and bird: "m_bird s = Some b0"
      and upd: "FlappyLevel_Update rnd f s = Inr s'"
  shows "m_score s' = m_score s + int (length (filter
            (\<lambda>q. \<not> m_scored q \<and>
                 pipe_passed (Bird_Update (deltaTime f) b0) (Pipe_Update (deltaTime f) q))
            (m_pipes s)))"
    and "\<exists>n fresh. n \<le> 1 \<and> (\<forall>q \<in> set fresh. \<not> m_scored q) \<and>
           (m_pipes s' =
              drop n (map (\<lambda>q. fst (pipe_body (deltaTime f) (Bird_Update (deltaTime f) b0) q))
                        (m_pipes s)) @ fresh
            \<or> m_pipes s' = fresh)"
proof -
  let ?b = "Bird_Update (deltaTime f) b0"
  let ?L = "pipes_loop (deltaTime f) ?b (m_pipes s) (m_score s) False"
  obtain ps sc coll where loop: "?L = (ps, sc, coll)" by (cases ?L) auto
  have ps: "ps = map (\<lambda>q. fst (pipe_body (deltaTime f) ?b q)) (m_pipes s)"
    using pipes_loop_map [of "deltaTime f" ?b "m_pipes s" "m_score s" False] loop by simp
  have sc: "sc = m_score s + int (length (filter
            (\<lambda>q. \<not> m_scored q \<and> pipe_passed ?b (Pipe_Update (deltaTime f) q)) (m_pipes s)))"
    using pipes_loop_score [of "deltaTime f" ?b "m_pipes s" "m_score s" False] loop by simp
  define s1 where "s1 = s\<lparr>m_bird := Some ?b, m_pipes := ps, m_score := sc\<rparr>"
  define s2 where "s2 = (if (if touches_screen_edge s1 ?b then True else coll)
                         then handle_collision rnd ?b s1 else s1)"
  have pl: "flappy_playing rnd f s =
              (case generate_if_needed rnd (remove_offscreen s2) of
                 Inl e \<Rightarrow> Inl e | Inr s3 \<Rightarrow> jump_on_space f (check_win s3))"
    using bird loop by (simp add: flappy_playing_def Let_def s1_def s2_def)
  from upd playing have "flappy_playing rnd f s = Inr s'"
    by (simp add: FlappyLevel_Update_def)
  with pl obtain s3 where s3: "generate_if_needed rnd (remove_offscreen s2) = Inr s3"
    and s': "jump_on_space f (check_win s3) = Inr s'"
    by (cases "generate_if_needed rnd (remove_offscreen s2)") simp_all
  from s' have fin: "m_pipes s' = m_pipes s3" "m_score s' = m_score s3"
    by (auto simp: jump_on_space_def check_win_def split: if_splits option.splits)
  have sc2: "m_score s2 = sc"
    by (simp add: s2_def s1_def handle_collision_def Let_def two_fresh_pipes_facts)
  have "m_score (remove_offscreen s2) = sc"
    using sc2 by (simp add: remove_offscreen_def)
  with s3 have "m_score s3 = sc"
    by (auto simp: generate_if_needed_def GenerateNewPipe_def Let_def split: if_splits)
  with fin sc show "m_score s' = m_score s + int (length (filter
            (\<lambda>q. \<not> m_scored q \<and> pipe_passed ?b (Pipe_Update (deltaTime f) q)) (m_pipes s)))"
    by simp
  have two: "(m_pipes s2 = ps) \<or> (m_pipes s2 = m_pipes (two_fresh_pipes rnd s))"
    by (auto simp add: s2_def s1_def handle_collision_def Let_def two_fresh_pipes_def)
  have rem: "m_pipes (remove_offscreen s2) = drop 0 (m_pipes s2) \<or>
             m_pipes (remove_offscreen s2) = drop 1 (m_pipes s2)"
    by (auto simp add: remove_offscreen_def drop_Suc)
  have gen: "m_pipes s3 = m_pipes (remove_offscreen s2) @ [] \<or>
             (\<exists>q. \<not> m_scored q \<and> m_pipes s3 = m_pipes (remove_offscreen s2) @ [q])"
    using s3
    by (auto simp: generate_if_needed_def GenerateNewPipe_def Let_def Pipe_new_def
        split: if_splits)
  from rem gen obtain n fresh where nf: "n \<le> 1" "\<forall>q \<in> set fresh. \<not> m_scored q"
    "m_pipes s3 = drop n (m_pipes s2) @ fresh"
  proof (elim disjE exE conjE)
    assume "m_pipes (remove_offscreen s2) = drop 0 (m_pipes s2)"
      "m_pipes s3 = m_pipes (remove_offscreen s2) @ []"
    then show ?thesis by (intro that [of 0 "[]"]) simp_all
  next
    fix q assume "m_pipes (remove_offscreen s2) = drop 0 (m_pipes s2)" "\<not> m_scored q"
      "m_pipes s3 = m_pipes (remove_offscreen s2) @ [q]"
    then show ?thesis by (intro that [of 0 "[q]"]) simp_all
  next
    assume "m_pipes (remove_offscreen s2) = drop 1 (m_pipes s2)"
      "m_pipes s3 = m_pipes (remove_offscreen s2) @ []"
    then show ?thesis by (intro that [of 1 "[]"]) simp_all
  next
    fix q assume "m_pipes (remove_offscreen s2) = drop 1 (m_pipes s2)" "\<not> m_scored q"
      "m_pipes s3 = m_pipes (remove_offscreen s2) @ [q]"
    then show ?thesis by (intro that [of 1 "[q]"]) simp_all
  qed
  have fr: "\<forall>q \<in> set (m_pipes (two_fresh_pipes rnd s)). \<not> m_scored q"
    by (rule two_fresh_pipes_facts)
  show "\<exists>n fresh. n \<le> 1 \<and> (\<forall>q \<in> set fresh. \<not> m_scored q) \<and>
           (m_pipes s' = drop n (map (\<lambda>q. fst (pipe_body (deltaTime f) ?b q)) (m_pipes s)) @ fresh
            \<or> m_pipes s' = fresh)"
  proof (cases "m_pipes s2 = ps")
    case True
    with nf fin ps show ?thesis by auto
  next
    case False
    with two have t: "m_pipes s2 = m_pipes (two_fresh_pipes rnd s)" by blast
    have "\<forall>q \<in> set (m_pipes s'). \<not> m_scored q"
    proof
      fix q assume "q \<in> set (m_pipes s')"
      with fin nf(3) have "q \<in> set (drop n (m_pipes s2)) \<or> q \<in> set fresh" by auto
      then show "\<not> m_scored q"
        using nf(2) fr t by (auto dest: in_set_dropD)
    qed
    then show ?thesis by (intro exI [of _ 0] exI [of _ "m_pipes s'"]) simp
  qed
qed


lemma pipe_after_take:
  assumes "n \<le> length hist"
  shows "m_scored (pipe_after p (take n hist)) = (m_scored p \<or> (\<exists>j<n. passed_in p hist j))"
proof -
  have len: "length (take n hist) = n" using assms by simp
  have same: "\<And>j. j < n \<Longrightarrow> passed_in p (take n hist) j = passed_in p hist j"
    by (simp add: passed_in_def min_def)
  have "m_scored (pipe_after p (take n hist)) =
          (m_scored p \<or> (\<exists>j<length (take n hist). passed_in p (take n hist) j))"
    by (rule pipe_after_flag)
  also have "\<dots> = (m_scored p \<or> (\<exists>j<n. passed_in p (take n hist) j))"
    unfolding len ..
  also have "\<dots> = (m_scored p \<or> (\<exists>j<n. passed_in p hist j))"
    using same by auto
  finally show ?thesis .
qed

text \<open>
  C5. Take a pipe that is not scored, as its constructor leaves it, and any stretch of
  playing frames that process it (each with its frame time and the bird of that frame).
  \<^item> The pipe makes the score go up at most once, and exactly once if and only if it ends
    the stretch scored.
  \<^item> It ends the stretch scored if and only if in some frame of the stretch the loop found
    its trailing edge left of the bird's leading edge.
  \<^item> The frame that marks it and increments the score is the first such frame, and no other.
  \<^item> Its flag is set after a frame exactly when it was set before or the frame marked it:
    it never goes back to false.
  The last part ties the stretch to \<open>Update\<close>: in a playing frame the score grows by the
  number of pipes that are unscored and passed in that frame, and the pipes the frame
  leaves are pipes that went through the loop body once (all of them, or all but the
  front one), followed by new, unscored pipes, or are new, unscored pipes only.
\<close>

theorem C5_pipe_scored_once:
  assumes "\<not> m_scored p"
  shows "pipe_increments p hist \<le> 1 \<and>
         (pipe_increments p hist = 1 \<longleftrightarrow> m_scored (pipe_after p hist)) \<and>
         (m_scored (pipe_after p hist) \<longleftrightarrow> (\<exists>k<length hist. passed_in p hist k)) \<and>
         (\<forall>k<length hist.
            scored_in p hist k \<longleftrightarrow> passed_in p hist k \<and> (\<forall>j<k. \<not> passed_in p hist j)) \<and>
         (\<forall>k<length hist.
            m_scored (pipe_after p (take (Suc k) hist)) \<longleftrightarrow>
              m_scored (pipe_after p (take k hist)) \<or> scored_in p hist k) \<and>
         (f_currentScreen s = FLAPPY_PLAYING \<and> m_bird s = Some b0 \<and>
          FlappyLevel_Update rnd f s = Inr s' \<longrightarrow>
            m_score s' = m_score s + int (length (filter
              (\<lambda>q. \<not> m_scored q \<and>
                   pipe_passed (Bird_Update (deltaTime f) b0) (Pipe_Update (deltaTime f) q))
              (m_pipes s))) \<and>
            (\<exists>n fresh. n \<le> 1 \<and> (\<forall>q \<in> set fresh. \<not> m_scored q) \<and>
               (m_pipes s' =
                  drop n (map (\<lambda>q. fst (pipe_body (deltaTime f) (Bird_Update (deltaTime f) b0) q))
                            (m_pipes s)) @ fresh
                \<or> m_pipes s' = fresh)))"
proof -
  have a: "pipe_increments p hist \<le> 1"
    by (simp add: pipe_increments_eq)
  have b: "pipe_increments p hist = 1 \<longleftrightarrow> m_scored (pipe_after p hist)"
    using assms by (simp add: pipe_increments_eq pipe_after_flag)
  have c: "m_scored (pipe_after p hist) \<longleftrightarrow> (\<exists>k<length hist. passed_in p hist k)"
    using assms by (simp add: pipe_after_flag)
  have d: "\<forall>k<length hist.
            scored_in p hist k \<longleftrightarrow> passed_in p hist k \<and> (\<forall>j<k. \<not> passed_in p hist j)"
    using assms by (simp add: scored_in_first)
  have e: "\<forall>k<length hist.
            m_scored (pipe_after p (take (Suc k) hist)) \<longleftrightarrow>
              m_scored (pipe_after p (take k hist)) \<or> scored_in p hist k"
  proof (intro allI impI)
    fix k assume k: "k < length hist"
    have "m_scored (pipe_after p (take (Suc k) hist)) = (\<exists>j<Suc k. passed_in p hist j)"
      using assms k by (simp add: pipe_after_take)
    moreover have "m_scored (pipe_after p (take k hist)) = (\<exists>j<k. passed_in p hist j)"
      using assms k by (simp add: pipe_after_take)
    moreover have "scored_in p hist k = (passed_in p hist k \<and> (\<forall>j<k. \<not> passed_in p hist j))"
      using d k by simp
    ultimately show "m_scored (pipe_after p (take (Suc k) hist)) \<longleftrightarrow>
              m_scored (pipe_after p (take k hist)) \<or> scored_in p hist k"
      by (auto simp: less_Suc_eq)
  qed
  show ?thesis
    using a b c d e FlappyLevel_Update_pipes [of s b0 rnd f s'] by blast
qed


lemma first_pipe_fresh: "\<not> m_scored first_pipe"
  by code_simp

lemma first_pipe_passes: "passed_in first_pipe passing_history 4"
  by code_simp

lemma before_first_score_facts:
  "f_currentScreen before_first_score = FLAPPY_PLAYING"
  "m_bird before_first_score = Some floor_bird"
  "FlappyLevel_Update gap_360 (stall (5 / 2)) before_first_score
     = Inr (projr (FlappyLevel_Update gap_360 (stall (5 / 2)) before_first_score))"
  "int (length (filter
      (\<lambda>q. \<not> m_scored q \<and>
           pipe_passed (Bird_Update (deltaTime (stall (5 / 2))) floor_bird)
             (Pipe_Update (deltaTime (stall (5 / 2))) q))
      (m_pipes before_first_score))) = 1"
  by code_simp+

theorem C5_witness:
  "\<not> m_scored first_pipe \<and>
   passed_in first_pipe passing_history 4 \<and>
   m_scored (pipe_after first_pipe passing_history) \<and>
   pipe_increments first_pipe passing_history = 1 \<and>
   f_currentScreen before_first_score = FLAPPY_PLAYING \<and>
   m_score (projr (FlappyLevel_Update gap_360 (stall (5 / 2)) before_first_score))
     = m_score before_first_score + 1"
proof -
  have len: "4 < length passing_history" by (simp add: passing_history_def)
  from C5_pipe_scored_once [OF first_pipe_fresh, of passing_history before_first_score
      floor_bird gap_360 "stall (5 / 2)"
      "projr (FlappyLevel_Update gap_360 (stall (5 / 2)) before_first_score)"]
  show ?thesis
    using first_pipe_fresh first_pipe_passes len before_first_score_facts by auto
qed

end
